theory Spec2Isabelle
  imports Main
begin

section \<open>JavaScript values\<close>

text \<open>
  A JSON value as \<open>JSON.parse\<close> returns it. An object keeps its members in the order of
  the text; a property read takes the last member of that name, as \<open>JSON.parse\<close> lets a
  later duplicate win. Numbers are the integers (fractions are not needed by any function
  modelled here).
\<close>

datatype json =
    JNull
  | JBool bool
  | JNumber int
  | JString string
  | JArray "json list"
  | JObject "(string \<times> json) list"

text \<open>
  A number-valued field that may hold \<open>NaN\<close>, such as the result of \<open>parseInt\<close>.
\<close>

datatype number = NaN | Num int

text \<open>\<open>v.k\<close> on a non-null value: \<open>None\<close> is \<open>undefined\<close>.\<close>

fun get_prop :: "json \<Rightarrow> string \<Rightarrow> json option" where
  "get_prop (JObject kvs) k = map_of (rev kvs) k"
| "get_prop _ k = None"

text \<open>\<open>v === undefined || v === null\<close>, the test behind \<open>?.\<close> and \<open>??\<close>.\<close>

definition nullish :: "json option \<Rightarrow> bool" where
  "nullish v = (v = None \<or> v = Some JNull)"

text \<open>\<open>a ?? b\<close>, and \<open>a ?? b\<close> where \<open>b\<close> is a value that is neither \<open>undefined\<close> nor \<open>null\<close>.\<close>

definition coalesce :: "json option \<Rightarrow> json option \<Rightarrow> json option" where
  "coalesce a b = (if nullish a then b else a)"

definition coalesce_to :: "json option \<Rightarrow> json \<Rightarrow> json" where
  "coalesce_to a b = (case a of None \<Rightarrow> b | Some v \<Rightarrow> (if v = JNull then b else v))"

text \<open>\<open>v?.k\<close>\<close>

definition opt_prop :: "json option \<Rightarrow> string \<Rightarrow> json option" where
  "opt_prop v k = (case v of None \<Rightarrow> None | Some j \<Rightarrow> (if j = JNull then None else get_prop j k))"

text \<open>Truthiness of a string that may be \<open>undefined\<close> or \<open>null\<close> (\<open>None\<close>).\<close>

fun truthy_str :: "string option \<Rightarrow> bool" where
  "truthy_str None = False"
| "truthy_str (Some s) = (s \<noteq> [])"

text \<open>
  Truthiness of a number that may be \<open>undefined\<close>, and the value of a number that has
  passed the test.
\<close>

fun truthy_num :: "number option \<Rightarrow> bool" where
  "truthy_num None = False"
| "truthy_num (Some NaN) = False"
| "truthy_num (Some (Num n)) = (n \<noteq> 0)"

fun num_of :: "number option \<Rightarrow> int" where
  "num_of (Some (Num n)) = n"
| "num_of _ = 0"

text \<open>Truthiness of a JSON value that may be \<open>undefined\<close>.\<close>

fun truthy_json :: "json option \<Rightarrow> bool" where
  "truthy_json None = False"
| "truthy_json (Some JNull) = False"
| "truthy_json (Some (JBool b)) = b"
| "truthy_json (Some (JNumber n)) = (n \<noteq> 0)"
| "truthy_json (Some (JString s)) = (s \<noteq> [])"
| "truthy_json (Some (JArray xs)) = True"
| "truthy_json (Some (JObject kvs)) = True"

text \<open>The decimal digits of an integer, as a template literal prints a status code.\<close>

function digits :: "int \<Rightarrow> string" where
  "digits n = (if n < 10 then [char_of (48 + n)] else digits (n div 10) @ [char_of (48 + n mod 10)])"
  by pat_completeness auto
termination
  by (relation "measure nat") auto

definition decimal :: "int \<Rightarrow> string" where
  "decimal i = (if i < 0 then CHR ''-'' # digits (- i) else digits i)"

text \<open>\<open>Array.prototype.join\<close> on strings.\<close>

fun join :: "string \<Rightarrow> string list \<Rightarrow> string" where
  "join sep [] = []"
| "join sep [x] = x"
| "join sep (x # y # ys) = x @ sep @ join sep (y # ys)"

section \<open>Errors\<close>

text \<open>
  \<open>class HttpError extends Error\<close>. The field \<open>message\<close> is the message of the error:
  the string that \<open>super(message)\<close> makes of the argument of the constructor.
\<close>

record HttpError =
  message :: string
  code :: string
  status :: int
  retryAfter :: "number option"

text \<open>
  What a \<open>throw\<close> carries: an instance of \<open>HttpError\<close>, any other value (of a type the
  operation chooses), or \<open>undefined\<close>.
\<close>

datatype 'x thrown = HttpErr HttpError | Threw 'x | Undefined

text \<open>The other values the modelled functions throw.\<close>

datatype js_error =
    SyntaxError
  | TypeError
  | Error string
  | SystemError string
  | FetchFailed string

section \<open>The platform\<close>

text \<open>
  The functions of the JavaScript runtime that the program calls are parameters of the model:
  \<open>JSON.parse\<close> (\<open>None\<close> when it throws a \<open>SyntaxError\<close>); \<open>JSON.parse\<close> of a key file at the
  type \<open>ServiceAccountKey\<close> that the source casts the result to (\<open>Inl\<close> when \<open>JSON.parse\<close>
  throws, or when the result is \<open>null\<close> and reading a field of it throws);
  \<open>JSON.stringify\<close>; \<open>parseInt\<close>; \<open>Buffer.from(s).toString('base64url')\<close>; the signature
  \<open>createSign(algorithm).update(data).sign(key, 'base64url')\<close>, which may throw; and the
  conversion of a value that is not a string to a string, as the constructor of \<open>Error\<close>
  applies it to its argument (\<open>Inl\<close> when the conversion throws, as it does on an object
  whose member \<open>toString\<close> cannot be called).
\<close>

text \<open>
  \<open>interface ServiceAccountKey\<close>. Its fields \<open>type\<close> and \<open>client_id\<close> are named \<open>key_type\<close>
  and \<open>key_client_id\<close> here.
\<close>

record ServiceAccountKey =
  key_type :: string
  project_id :: string
  private_key_id :: string
  private_key :: string
  client_email :: string
  key_client_id :: string
  auth_uri :: string
  token_uri :: string

record platform =
  JSON_parse :: "string \<Rightarrow> json option"
  JSON_parse_key :: "string \<Rightarrow> js_error + ServiceAccountKey"
  JSON_stringify :: "json \<Rightarrow> string"
  parseInt :: "string \<Rightarrow> number"
  base64url :: "string \<Rightarrow> string"
  sign :: "string \<Rightarrow> string \<Rightarrow> string \<Rightarrow> js_error + string"
  ToString :: "json \<Rightarrow> js_error + string"

text \<open>\<open>String(v)\<close>: a string is left as it is.\<close>

fun String_of :: "platform \<Rightarrow> json \<Rightarrow> js_error + string" where
  "String_of P (JString s) = Inr s"
| "String_of P v = ToString P v"

text \<open>
  \<open>new HttpError(message, code, status, retryAfter)\<close>. The first argument is a string
  literal, the text of a body, or a member of a parsed body; \<open>super(message)\<close> converts it
  to a string, and the constructor throws when the conversion does.
\<close>

definition new_HttpError ::
  "platform \<Rightarrow> json \<Rightarrow> string \<Rightarrow> int \<Rightarrow> number option \<Rightarrow> js_error + HttpError" where
  "new_HttpError P m c st ra =
     (case String_of P m of
        Inl e \<Rightarrow> Inl e
      | Inr s \<Rightarrow> Inr \<lparr>message = s, code = c, status = st, retryAfter = ra\<rparr>)"

text \<open>
  What \<open>throw new HttpError(message, code, status, retryAfter)\<close> throws: the new error, or
  what its constructor has thrown.
\<close>

definition throw_new_HttpError ::
  "platform \<Rightarrow> json \<Rightarrow> string \<Rightarrow> int \<Rightarrow> number option \<Rightarrow> js_error thrown" where
  "throw_new_HttpError P m c st ra =
     (case new_HttpError P m c st ra of Inl e \<Rightarrow> Threw e | Inr h \<Rightarrow> HttpErr h)"

section \<open>request\<close>

text \<open>
  \<open>interface HttpOptions\<close>. Its field \<open>method\<close> is named \<open>http_method\<close> here.
\<close>

record HttpOptions =
  http_method :: "string option"
  headers :: "(string \<rightharpoonup> string) option"
  body :: "json option"
  timeout :: "int option"

text \<open>
  The second argument of \<open>fetch\<close>. The abort signal is represented by the delay after which
  the timer aborts the controller.
\<close>

record RequestInit =
  init_method :: string
  init_headers :: "string \<rightharpoonup> string"
  init_body :: "string option"
  init_signal :: int

text \<open>
  A response: its status, \<open>headers.get\<close>, and the text of its body.
\<close>

record Response =
  resp_status :: int
  resp_headers :: "string \<rightharpoonup> string"
  resp_text :: string

text \<open>\<open>response.ok\<close>: the status is in the range 200 to 299.\<close>

definition ok :: "Response \<Rightarrow> bool" where
  "ok response = (200 \<le> resp_status response \<and> resp_status response \<le> 299)"

text \<open>
  The second argument that \<open>request\<close> hands to \<open>fetch\<close>, from the options destructured with
  their defaults.
\<close>

definition request_init :: "platform \<Rightarrow> HttpOptions \<Rightarrow> RequestInit" where
  "request_init P options =
     (let method = (case http_method options of None \<Rightarrow> ''GET'' | Some m \<Rightarrow> m);
          headers = (case headers options of None \<Rightarrow> Map.empty | Some h \<Rightarrow> h);
          body = body options;
          timeout = (case timeout options of None \<Rightarrow> 30000 | Some t \<Rightarrow> t)
      in
      \<lparr>init_method = method,
       init_headers = [''Content-Type'' \<mapsto> ''application/json''] ++ headers,
       init_body = (case body of
                      None \<Rightarrow> None
                    | Some b \<Rightarrow> (if truthy_json (Some b) then Some (JSON_stringify P b) else None)),
       init_signal = timeout\<rparr>)"

text \<open>
  \<open>request\<close>. \<open>fetch\<close> is the network: in a world \<open>'w\<close> it rejects (\<open>Inl\<close>, also when the
  timer aborts it) or answers with a response.
\<close>

definition request ::
  "platform \<Rightarrow> ('w \<Rightarrow> string \<Rightarrow> RequestInit \<Rightarrow> (js_error thrown + Response) \<times> 'w) \<Rightarrow> string \<Rightarrow> HttpOptions
     \<Rightarrow> 'w \<Rightarrow> (js_error thrown + json) \<times> 'w" where
  "request P fetch url options w =
     (case fetch w url (request_init P options) of
        (Inl e, w1) \<Rightarrow> (Inl e, w1)
      | (Inr response, w1) \<Rightarrow>
          (if resp_status response = 429 then
             (let retryAfter = resp_headers response ''retry-after'' in
              (Inl (throw_new_HttpError P
                      (JString ''Rate limit exceeded'')
                      ''RATE_LIMITED''
                      429
                      (case retryAfter of
                         None \<Rightarrow> None
                       | Some s \<Rightarrow> (if s \<noteq> [] then Some (parseInt P s) else None))), w1))
           else if resp_status response = 401 \<or> resp_status response = 403 then
             (Inl (throw_new_HttpError P
                     (JString ''Authentication failed. Check your credentials or run: gtm auth login'')
                     ''AUTH_FAILED''
                     (resp_status response)
                     None), w1)
           else if resp_status response = 404 then
             (Inl (throw_new_HttpError P
                     (JString ''Resource not found. Check the IDs provided.'')
                     ''NOT_FOUND''
                     (resp_status response)
                     None), w1)
           else if \<not> ok response then
             (let text = resp_text response;
                  message = JString (''HTTP '' @ decimal (resp_status response));
                  message =
                    (case JSON_parse P text of
                       None \<Rightarrow> (if text \<noteq> [] then JString text else message)
                     | Some json \<Rightarrow>
                         (if json = JNull then (if text \<noteq> [] then JString text else message)
                          else coalesce_to
                                 (coalesce (opt_prop (get_prop json ''error'') ''message'')
                                    (get_prop json ''message''))
                                 (JString text)))
              in (Inl (throw_new_HttpError P message ''API_ERROR'' (resp_status response) None), w1))
           else
             (let text = resp_text response in
              if text = [] then (Inr (JObject []), w1)
              else (case JSON_parse P text of
                      None \<Rightarrow> (Inl (Threw SyntaxError), w1)
                    | Some json \<Rightarrow> (Inr json, w1)))))"

section \<open>withRetry\<close>

text \<open>
  The wrapped operation \<open>fn\<close> runs in a world \<open>'w\<close> that it may change; it throws
  (\<open>Inl\<close>) or returns (\<open>Inr\<close>). \<open>sleep\<close> is the effect of waiting on that world. The
  trace lists, in order, every invocation of \<open>fn\<close> with its outcome and every call of
  \<open>sleep\<close> with its argument in milliseconds. \<open>maxRetries\<close>, \<open>initialDelay\<close> and
  \<open>retryAfter\<close> are integers.
\<close>

datatype ('x, 'a) event = Called "'x thrown + 'a" | Slept int

text \<open>
  The argument of \<open>sleep\<close> in the \<open>catch\<close> block of attempt \<open>attempt\<close>. The test
  \<open>error instanceof HttpError && error.retryAfter\<close> holds for an \<open>HttpError\<close> whose
  \<open>retryAfter\<close> is a number other than \<open>0\<close> and \<open>NaN\<close>.
\<close>

definition sleep_ms :: "int \<Rightarrow> nat \<Rightarrow> 'x thrown \<Rightarrow> int" where
  "sleep_ms initialDelay attempt error =
     (case error of
        HttpErr e \<Rightarrow>
          (if truthy_num (retryAfter e) then num_of (retryAfter e) * 1000
           else initialDelay * 2 ^ attempt)
      | _ \<Rightarrow> initialDelay * 2 ^ attempt)"

text \<open>
  The \<open>for\<close> loop of \<open>withRetry\<close> from \<open>attempt\<close> on, and the \<open>throw lastError\<close> after it.
\<close>

function withRetry_loop ::
  "(int \<Rightarrow> 'w \<Rightarrow> 'w) \<Rightarrow> ('w \<Rightarrow> ('x thrown + 'a) \<times> 'w) \<Rightarrow> int \<Rightarrow> int \<Rightarrow> nat \<Rightarrow> 'x thrown \<Rightarrow> 'w
     \<Rightarrow> ('x thrown + 'a) \<times> 'w \<times> ('x, 'a) event list" where
  "withRetry_loop sleep fn maxRetries initialDelay attempt lastError w =
     (if int attempt \<le> maxRetries then
        (case fn w of
           (Inr v, w1) \<Rightarrow> (Inr v, w1, [Called (Inr v)])
         | (Inl error, w1) \<Rightarrow>
             (if int attempt \<ge> maxRetries then (Inl error, w1, [Called (Inl error)])
              else
                (case withRetry_loop sleep fn maxRetries initialDelay (Suc attempt) error
                        (sleep (sleep_ms initialDelay attempt error) w1) of
                   (r, w2, tr) \<Rightarrow>
                     (r, w2, Called (Inl error) # Slept (sleep_ms initialDelay attempt error) # tr))))
      else (Inl lastError, w, []))"
  by pat_completeness auto
termination
  by (relation "measure (\<lambda>(sleep, fn, maxRetries, initialDelay, attempt, lastError, w).
        nat (maxRetries + 1 - int attempt))") auto

definition withRetry ::
  "(int \<Rightarrow> 'w \<Rightarrow> 'w) \<Rightarrow> ('w \<Rightarrow> ('x thrown + 'a) \<times> 'w) \<Rightarrow> int \<Rightarrow> int \<Rightarrow> 'w
     \<Rightarrow> ('x thrown + 'a) \<times> 'w \<times> ('x, 'a) event list" where
  "withRetry sleep fn maxRetries initialDelay w =
     withRetry_loop sleep fn maxRetries initialDelay 0 Undefined w"

text \<open>The outcomes of the invocations of \<open>fn\<close> in a trace, in order.\<close>

fun attempts :: "('x, 'a) event list \<Rightarrow> ('x thrown + 'a) list" where
  "attempts [] = []"
| "attempts (Called r # tr) = r # attempts tr"
| "attempts (Slept d # tr) = attempts tr"

section \<open>The persisted configuration and the world of the credential resolver\<close>

record Defaults =
  account_id :: "string option"
  container_id :: "string option"
  workspace_id :: "string option"

text \<open>
  The \<open>auth\<close> object of the configuration file. A field that the object does not have is
  \<open>None\<close>.
\<close>

record AuthConfig =
  oauth_token :: "string option"
  oauth_refresh_token :: "string option"
  oauth_expires_at :: "int option"
  client_id :: "string option"
  client_secret :: "string option"
  service_account_key_path :: "string option"

record CliConfig =
  defaults :: "Defaults option"
  auth :: "AuthConfig option"

text \<open>A form posted to a token endpoint, and what the endpoint answers.\<close>

record FormPost =
  post_url :: string
  post_form :: "(string \<times> string) list"

record TokenResponse =
  tok_ok :: bool
  tok_text :: string
  tok_access_token :: string
  tok_refresh_token :: string
  tok_expires_in :: int

text \<open>
  What the credential resolver reads and changes: the environment variable, the configuration
  file, the clock (\<open>Date.now()\<close>, in milliseconds), the files, the token endpoints (\<open>Inl\<close>
  when \<open>fetch\<close> rejects), and the list of the posts made so far.
\<close>

record world =
  env_GTM_ACCESS_TOKEN :: "string option"
  config :: CliConfig
  Date_now :: int
  files :: "string \<rightharpoonup> string"
  network :: "FormPost \<Rightarrow> js_error + TokenResponse"
  posts :: "FormPost list"

text \<open>
  Modelled from the spec: \<open>ConfigManager.get('auth')\<close> of lib/config.ts, which is not among
  the sources. The configuration is a single JSON document with a \<open>defaults\<close> object and an
  \<open>auth\<close> object; \<open>get\<close> reads one of them.
\<close>

definition config_get_auth :: "world \<Rightarrow> AuthConfig option" where
  "config_get_auth w = auth (config w)"

text \<open>
  Modelled from the spec: \<open>ConfigManager.set('auth', value)\<close> of lib/config.ts, which is not
  among the sources. The credential record is one of three mutually exclusive shapes and is
  rewritten as a whole: \<open>set\<close> puts the given object in the place of the \<open>auth\<close> object and
  leaves the rest of the document as it is.
\<close>

definition config_set_auth :: "AuthConfig \<Rightarrow> world \<Rightarrow> world" where
  "config_set_auth a w = w\<lparr>config := (config w)\<lparr>auth := Some a\<rparr>\<rparr>"

text \<open>
  Modelled from the spec: \<open>ConfigManager.read()\<close> of lib/config.ts, which is not among the
  sources. It returns the whole persisted document.
\<close>

definition config_read :: "world \<Rightarrow> CliConfig" where
  "config_read w = config w"

text \<open>
  Modelled from the spec: \<open>ConfigManager.write(document)\<close> of lib/config.ts, which is not
  among the sources. It replaces the whole persisted document.
\<close>

definition config_write :: "CliConfig \<Rightarrow> world \<Rightarrow> world" where
  "config_write c w = w\<lparr>config := c\<rparr>"

text \<open>The object \<open>{}\<close> at the type of the \<open>auth\<close> object.\<close>

definition empty_auth :: AuthConfig where
  "empty_auth =
     \<lparr>oauth_token = None, oauth_refresh_token = None, oauth_expires_at = None,
      client_id = None, client_secret = None, service_account_key_path = None\<rparr>"

text \<open>
  \<open>readFileSync(path, 'utf-8')\<close>: the content of the file, or a thrown system error. No file
  has the empty path.
\<close>

definition readFileSync :: "string \<Rightarrow> world \<Rightarrow> js_error + string" where
  "readFileSync path w =
     (if path = [] then Inl (SystemError ''ENOENT'')
      else (case files w path of None \<Rightarrow> Inl (SystemError ''ENOENT'') | Some raw \<Rightarrow> Inr raw))"

text \<open>\<open>fetch\<close> of a token endpoint with the method POST and a form as body.\<close>

definition fetch_token :: "FormPost \<Rightarrow> world \<Rightarrow> (js_error + TokenResponse) \<times> world" where
  "fetch_token p w = (network w p, w\<lparr>posts := posts w @ [p]\<rparr>)"

section \<open>The credential resolver\<close>

definition GOOGLE_TOKEN_URL :: string where
  "GOOGLE_TOKEN_URL = ''https://oauth2.googleapis.com/token''"

definition GTM_SCOPES :: string where
  "GTM_SCOPES =
     join '' ''
       [''https://www.googleapis.com/auth/tagmanager.readonly'',
        ''https://www.googleapis.com/auth/tagmanager.edit.containers'',
        ''https://www.googleapis.com/auth/tagmanager.edit.containerversions'',
        ''https://www.googleapis.com/auth/tagmanager.publish'']"

text \<open>The value of a string that has passed a truthiness test.\<close>

fun str_of :: "string option \<Rightarrow> string" where
  "str_of None = []"
| "str_of (Some s) = s"

definition refreshOAuthToken ::
  "string \<Rightarrow> string \<Rightarrow> string \<Rightarrow> world \<Rightarrow> (js_error thrown + string) \<times> world" where
  "refreshOAuthToken refreshToken clientId clientSecret w =
     (case fetch_token
             \<lparr>post_url = GOOGLE_TOKEN_URL,
              post_form = [(''refresh_token'', refreshToken), (''client_id'', clientId),
                           (''client_secret'', clientSecret), (''grant_type'', ''refresh_token'')]\<rparr> w of
        (Inl e, w1) \<Rightarrow> (Inl (Threw e), w1)
      | (Inr response, w1) \<Rightarrow>
          (if \<not> tok_ok response then
             (Inl (Threw (Error ''Failed to refresh OAuth token. Run: gtm auth login'')), w1)
           else
             (let data = response;
                  currentConfig = config_read w1
              in (Inr (tok_access_token data),
                  config_write
                    (currentConfig
                       \<lparr>auth := Some
                          ((case auth currentConfig of None \<Rightarrow> empty_auth | Some a \<Rightarrow> a)
                             \<lparr>oauth_token := Some (tok_access_token data),
                              oauth_expires_at := Some (Date_now w1 + tok_expires_in data * 1000)\<rparr>)\<rparr>)
                    w1))))"

definition getServiceAccountToken ::
  "platform \<Rightarrow> string \<Rightarrow> world \<Rightarrow> (js_error thrown + string) \<times> world" where
  "getServiceAccountToken P keyFilePath w =
     (case readFileSync keyFilePath w of
        Inl e \<Rightarrow> (Inl (Threw e), w)
      | Inr raw \<Rightarrow>
          (case JSON_parse_key P raw of
             Inl e \<Rightarrow> (Inl (Threw e), w)
           | Inr key \<Rightarrow>
               (let now = Date_now w div 1000;
                    header = base64url P (JSON_stringify P
                               (JObject [(''alg'', JString ''RS256''), (''typ'', JString ''JWT'')]));
                    payload = base64url P (JSON_stringify P
                               (JObject [(''iss'', JString (client_email key)),
                                         (''scope'', JString GTM_SCOPES),
                                         (''aud'', JString (token_uri key)),
                                         (''iat'', JNumber now),
                                         (''exp'', JNumber (now + 3600))]))
                in
                case sign P ''RSA-SHA256'' (private_key key) (header @ ''.'' @ payload) of
                  Inl e \<Rightarrow> (Inl (Threw e), w)
                | Inr signature \<Rightarrow>
                    (let jwt = header @ ''.'' @ payload @ ''.'' @ signature in
                     case fetch_token
                            \<lparr>post_url = token_uri key,
                             post_form = [(''grant_type'', ''urn:ietf:params:oauth:grant-type:jwt-bearer''),
                                          (''assertion'', jwt)]\<rparr> w of
                       (Inl e, w1) \<Rightarrow> (Inl (Threw e), w1)
                     | (Inr response, w1) \<Rightarrow>
                         (if \<not> tok_ok response then
                            (Inl (Threw (Error (''Service account token exchange failed: '' @ tok_text response))), w1)
                          else (Inr (tok_access_token response), w1))))))"

text \<open>
  \<open>resolveAccessToken\<close>: \<open>Inr None\<close> is the result \<open>undefined\<close>.
\<close>

definition resolveAccessToken ::
  "platform \<Rightarrow> string option \<Rightarrow> world \<Rightarrow> (js_error thrown + string option) \<times> world" where
  "resolveAccessToken P flagValue w =
     (if truthy_str flagValue then (Inr flagValue, w)
      else
        (let envVal = env_GTM_ACCESS_TOKEN w in
         if truthy_str envVal then (Inr envVal, w)
         else
           (case config_get_auth w of
              None \<Rightarrow> (Inr None, w)
            | Some auth' \<Rightarrow>
                (if truthy_str (service_account_key_path auth') then
                   (case getServiceAccountToken P (str_of (service_account_key_path auth')) w of
                      (Inl e, w1) \<Rightarrow> (Inl e, w1)
                    | (Inr token, w1) \<Rightarrow> (Inr (Some token), w1))
                 else if truthy_str (oauth_token auth') then
                   (if (case oauth_expires_at auth' of
                          None \<Rightarrow> False
                        | Some t \<Rightarrow> t \<noteq> 0 \<and> Date_now w \<ge> t) then
                      (if truthy_str (oauth_refresh_token auth') \<and> truthy_str (client_id auth')
                            \<and> truthy_str (client_secret auth') then
                         (case refreshOAuthToken (str_of (oauth_refresh_token auth'))
                                 (str_of (client_id auth')) (str_of (client_secret auth')) w of
                            (Inl e, w1) \<Rightarrow> (Inl e, w1)
                          | (Inr token, w1) \<Rightarrow> (Inr (Some token), w1))
                       else (Inr None, w))
                    else (Inr (oauth_token auth'), w))
                 else (Inr None, w)))))"

text \<open>
  \<open>setupServiceAccount\<close>: \<open>Some 1\<close> is \<open>process.exit(1)\<close>, \<open>None\<close> the normal return.
  The lines written to the console are left out.
\<close>

definition setupServiceAccount :: "platform \<Rightarrow> string \<Rightarrow> world \<Rightarrow> int option \<times> world" where
  "setupServiceAccount P keyFilePath w =
     (case readFileSync keyFilePath w of
        Inl e \<Rightarrow> (Some 1, w)
      | Inr raw \<Rightarrow>
          (case JSON_parse_key P raw of
             Inl e \<Rightarrow> (Some 1, w)
           | Inr key \<Rightarrow>
               (if key_type key \<noteq> ''service_account'' then (Some 1, w)
                else (None, config_set_auth (empty_auth\<lparr>service_account_key_path := Some keyFilePath\<rparr>) w))))"

section \<open>The listener of the interactive login\<close>

text \<open>
  \<open>url.searchParams.get\<close> of the three parameters of a callback; \<open>None\<close> is \<open>null\<close>.
\<close>

record SearchParams =
  sp_code :: "string option"
  sp_state :: "string option"
  sp_error :: "string option"

datatype 'a promise = Pending | Resolved 'a | Rejected "js_error thrown"

text \<open>
  The server and the promise of \<open>waitForOAuthCallback\<close>: whether the server still listens,
  the state of the promise, and the answers written so far (status and body).
\<close>

record Listener =
  listening :: bool
  outcome :: "string promise"
  replies :: "(int \<times> string) list"

text \<open>\<open>resolve\<close> and \<open>reject\<close> settle a promise once; later calls change nothing.\<close>

definition settle :: "'a promise \<Rightarrow> 'a promise \<Rightarrow> 'a promise" where
  "settle v p = (if p = Pending then v else p)"

text \<open>
  The request handler. Its argument is the result of \<open>new URL(req.url ?? '/', ...)\<close>:
  \<open>None\<close> when the constructor throws. A server that was closed receives no request.
\<close>

definition on_request :: "string \<Rightarrow> SearchParams option \<Rightarrow> Listener \<Rightarrow> Listener" where
  "on_request expectedState url L =
     (if \<not> listening L then L
      else
        (case url of
           None \<Rightarrow> L\<lparr>listening := False, outcome := settle (Rejected (Threw TypeError)) (outcome L)\<rparr>
         | Some params \<Rightarrow>
             (let code = sp_code params;
                  state = sp_state params;
                  error = sp_error params
              in
              if truthy_str error then
                L\<lparr>listening := False,
                  outcome := settle (Rejected (Threw (Error (''OAuth authorization failed: '' @ str_of error))))
                               (outcome L),
                  replies := replies L @
                    [(400, ''<html><body><h1>Authorization failed: '' @ str_of error @ ''</h1></body></html>'')]\<rparr>
              else if state \<noteq> Some expectedState then
                L\<lparr>replies := replies L @ [(400, ''<html><body><h1>Invalid state parameter</h1></body></html>'')]\<rparr>
              else if \<not> truthy_str code then
                L\<lparr>replies := replies L @ [(400, ''<html><body><h1>Missing authorization code</h1></body></html>'')]\<rparr>
              else
                L\<lparr>listening := False,
                  outcome := settle (Resolved (str_of code)) (outcome L),
                  replies := replies L @
                    [(200, ''<html><body><h1>Authorization successful!</h1><p>You can close this window.</p></body></html>'')]\<rparr>)))"

text \<open>The timer of five minutes.\<close>

definition on_timeout :: "Listener \<Rightarrow> Listener" where
  "on_timeout L =
     L\<lparr>listening := False,
       outcome := settle (Rejected (Threw (Error ''OAuth callback timed out after 5 minutes''))) (outcome L)\<rparr>"

text \<open>\<open>server.on('error', reject)\<close>\<close>

definition on_error :: "js_error \<Rightarrow> Listener \<Rightarrow> Listener" where
  "on_error err L = L\<lparr>outcome := settle (Rejected (Threw err)) (outcome L)\<rparr>"

datatype server_event = Incoming "SearchParams option" | Timeout | Failed js_error

fun on_event :: "string \<Rightarrow> server_event \<Rightarrow> Listener \<Rightarrow> Listener" where
  "on_event expectedState (Incoming url) L = on_request expectedState url L"
| "on_event expectedState Timeout L = on_timeout L"
| "on_event expectedState (Failed err) L = on_error err L"

text \<open>
  \<open>waitForOAuthCallback\<close> after the given events, from the listening server and the pending
  promise that it creates.
\<close>

definition waitForOAuthCallback :: "string \<Rightarrow> server_event list \<Rightarrow> Listener" where
  "waitForOAuthCallback expectedState events =
     foldl (\<lambda>L ev. on_event expectedState ev L) \<lparr>listening = True, outcome = Pending, replies = []\<rparr> events"

section \<open>An executable platform\<close>

text \<open>
  An instance of the platform functions on which the model runs on concrete inputs. The
  theorems below hold for every platform; this one serves to evaluate them. Its parser reads
  the JSON texts without fractions, exponents and Unicode escapes, and answers \<open>None\<close> on
  any other text.
\<close>

definition is_ws :: "char \<Rightarrow> bool" where
  "is_ws c = (c = CHR 0x20 \<or> c = CHR 0x09 \<or> c = CHR 0x0A \<or> c = CHR 0x0D)"

definition skip_ws :: "string \<Rightarrow> string" where
  "skip_ws s = dropWhile is_ws s"

definition is_digit :: "char \<Rightarrow> bool" where
  "is_digit c = (48 \<le> (of_char c :: int) \<and> (of_char c :: int) \<le> 57)"

definition int_of_digits :: "string \<Rightarrow> int" where
  "int_of_digits ds = foldl (\<lambda>n c. 10 * n + (of_char c - 48)) 0 ds"

text \<open>The character that follows a backslash in a JSON string, and what it stands for.\<close>

definition unescape :: "char \<Rightarrow> char option" where
  "unescape c =
     (if c = CHR 0x22 \<or> c = CHR 0x5C \<or> c = CHR ''/'' then Some c
      else if c = CHR ''b'' then Some (CHR 0x08)
      else if c = CHR ''f'' then Some (CHR 0x0C)
      else if c = CHR ''n'' then Some (CHR 0x0A)
      else if c = CHR ''r'' then Some (CHR 0x0D)
      else if c = CHR ''t'' then Some (CHR 0x09)
      else None)"

text \<open>The rest of a JSON string after its opening quote, and the text after the closing one.\<close>

fun scan_string :: "string \<Rightarrow> (string \<times> string) option" where
  "scan_string [] = None"
| "scan_string (c # cs) =
     (if c = CHR 0x22 then Some ([], cs)
      else if c = CHR 0x5C then
        (case cs of
           [] \<Rightarrow> None
         | e # r \<Rightarrow>
             (case unescape e of
                None \<Rightarrow> None
              | Some ch \<Rightarrow>
                  (case scan_string r of None \<Rightarrow> None | Some (str, rest) \<Rightarrow> Some (ch # str, rest))))
      else if (of_char c :: int) < 32 then None
      else (case scan_string cs of None \<Rightarrow> None | Some (str, rest) \<Rightarrow> Some (c # str, rest)))"

text \<open>An integer literal of JSON at the start of a text.\<close>

definition scan_number :: "string \<Rightarrow> (int \<times> string) option" where
  "scan_number s =
     (let neg = (s \<noteq> [] \<and> hd s = CHR ''-'');
          s1 = (if neg then tl s else s);
          ds = takeWhile is_digit s1;
          rest = dropWhile is_digit s1
      in
      if ds = [] \<or> (length ds > 1 \<and> hd ds = CHR ''0'') then None
      else if rest \<noteq> [] \<and> (hd rest = CHR ''.'' \<or> hd rest = CHR ''e'' \<or> hd rest = CHR ''E'') then None
      else Some (if neg then - int_of_digits ds else int_of_digits ds, rest))"

text \<open>\<open>strip_prefix p s\<close> is the rest of \<open>s\<close> after its prefix \<open>p\<close>.\<close>

definition strip_prefix :: "string \<Rightarrow> string \<Rightarrow> string option" where
  "strip_prefix p s = (if take (length p) s = p then Some (drop (length p) s) else None)"

text \<open>
  A value, the elements of an array after its opening bracket, and the members of an object
  after its opening brace. The first argument bounds the depth of the recursion.
\<close>

fun parse_value :: "nat \<Rightarrow> string \<Rightarrow> (json \<times> string) option"
  and parse_elements :: "nat \<Rightarrow> string \<Rightarrow> (json list \<times> string) option"
  and parse_members :: "nat \<Rightarrow> string \<Rightarrow> ((string \<times> json) list \<times> string) option" where
  "parse_value 0 s = None"
| "parse_value (Suc n) s =
     (case skip_ws s of
        [] \<Rightarrow> None
      | c # cs \<Rightarrow>
          (if c = CHR ''n'' then map_option (Pair JNull) (strip_prefix ''ull'' cs)
           else if c = CHR ''t'' then map_option (Pair (JBool True)) (strip_prefix ''rue'' cs)
           else if c = CHR ''f'' then map_option (Pair (JBool False)) (strip_prefix ''alse'' cs)
           else if c = CHR 0x22 then
             (case scan_string cs of None \<Rightarrow> None | Some (str, rest) \<Rightarrow> Some (JString str, rest))
           else if c = CHR ''['' then
             (if strip_prefix '']'' (skip_ws cs) \<noteq> None
              then map_option (Pair (JArray [])) (strip_prefix '']'' (skip_ws cs))
              else (case parse_elements n cs of None \<Rightarrow> None | Some (vs, rest) \<Rightarrow> Some (JArray vs, rest)))
           else if c = CHR ''{'' then
             (if strip_prefix ''}'' (skip_ws cs) \<noteq> None
              then map_option (Pair (JObject [])) (strip_prefix ''}'' (skip_ws cs))
              else (case parse_members n cs of None \<Rightarrow> None | Some (kvs, rest) \<Rightarrow> Some (JObject kvs, rest)))
           else (case scan_number (c # cs) of None \<Rightarrow> None | Some (i, rest) \<Rightarrow> Some (JNumber i, rest))))"
| "parse_elements 0 s = None"
| "parse_elements (Suc n) s =
     (case parse_value n s of
        None \<Rightarrow> None
      | Some (v, rest) \<Rightarrow>
          (case skip_ws rest of
             [] \<Rightarrow> None
           | c # cs \<Rightarrow>
               (if c = CHR '']'' then Some ([v], cs)
                else if c = CHR '','' then
                  (case parse_elements n cs of None \<Rightarrow> None | Some (vs, rest') \<Rightarrow> Some (v # vs, rest'))
                else None)))"
| "parse_members 0 s = None"
| "parse_members (Suc n) s =
     (case skip_ws s of
        [] \<Rightarrow> None
      | q # s1 \<Rightarrow>
          (if q \<noteq> CHR 0x22 then None
           else
             (case scan_string s1 of
                None \<Rightarrow> None
              | Some (k, s2) \<Rightarrow>
                  (case strip_prefix '':'' (skip_ws s2) of
                     None \<Rightarrow> None
                   | Some s3 \<Rightarrow>
                       (case parse_value n s3 of
                          None \<Rightarrow> None
                        | Some (v, rest) \<Rightarrow>
                            (case skip_ws rest of
                               [] \<Rightarrow> None
                             | c # cs \<Rightarrow>
                                 (if c = CHR ''}'' then Some ([(k, v)], cs)
                                  else if c = CHR '','' then
                                    (case parse_members n cs of
                                       None \<Rightarrow> None
                                     | Some (kvs, rest') \<Rightarrow> Some ((k, v) # kvs, rest'))
                                  else None)))))))"

definition node_JSON_parse :: "string \<Rightarrow> json option" where
  "node_JSON_parse s =
     (case parse_value (Suc (length s)) s of
        None \<Rightarrow> None
      | Some (v, rest) \<Rightarrow> (if skip_ws rest = [] then Some v else None))"

text \<open>The member \<open>k\<close> of a parsed key file when it is a string, the empty string otherwise.\<close>

definition str_member :: "json \<Rightarrow> string \<Rightarrow> string" where
  "str_member j k = (case get_prop j k of Some (JString s) \<Rightarrow> s | _ \<Rightarrow> [])"

definition node_JSON_parse_key :: "string \<Rightarrow> js_error + ServiceAccountKey" where
  "node_JSON_parse_key s =
     (case node_JSON_parse s of
        None \<Rightarrow> Inl SyntaxError
      | Some j \<Rightarrow>
          (if j = JNull then Inl TypeError
           else
             Inr \<lparr>key_type = str_member j ''type'',
                  project_id = str_member j ''project_id'',
                  private_key_id = str_member j ''private_key_id'',
                  private_key = str_member j ''private_key'',
                  client_email = str_member j ''client_email'',
                  key_client_id = str_member j ''client_id'',
                  auth_uri = str_member j ''auth_uri'',
                  token_uri = str_member j ''token_uri''\<rparr>))"

text \<open>A string between quotes, with its quotes and backslashes escaped.\<close>

definition quoted :: "string \<Rightarrow> string" where
  "quoted s =
     [CHR 0x22] @ concat (map (\<lambda>c. if c = CHR 0x22 \<or> c = CHR 0x5C then [CHR 0x5C, c] else [c]) s)
       @ [CHR 0x22]"

fun stringify :: "json \<Rightarrow> string"
  and stringify_elements :: "json list \<Rightarrow> string list"
  and stringify_members :: "(string \<times> json) list \<Rightarrow> string list" where
  "stringify JNull = ''null''"
| "stringify (JBool b) = (if b then ''true'' else ''false'')"
| "stringify (JNumber i) = decimal i"
| "stringify (JString s) = quoted s"
| "stringify (JArray vs) = ''['' @ join '','' (stringify_elements vs) @ '']''"
| "stringify (JObject kvs) = ''{'' @ join '','' (stringify_members kvs) @ ''}''"
| "stringify_elements [] = []"
| "stringify_elements (v # vs) = stringify v # stringify_elements vs"
| "stringify_members [] = []"
| "stringify_members ((k, v) # kvs) = (quoted k @ '':'' @ stringify v) # stringify_members kvs"

text \<open>
  \<open>parseInt\<close> of a text in base ten: leading white space, a sign, then the longest run of
  digits; \<open>NaN\<close> when there is no digit.
\<close>

definition node_parseInt :: "string \<Rightarrow> number" where
  "node_parseInt s =
     (let s0 = skip_ws s;
          neg = (s0 \<noteq> [] \<and> hd s0 = CHR ''-'');
          s1 = (if s0 \<noteq> [] \<and> (hd s0 = CHR ''-'' \<or> hd s0 = CHR ''+'') then tl s0 else s0);
          ds = takeWhile is_digit s1
      in
      if ds = [] then NaN
      else Num (if neg then - int_of_digits ds else int_of_digits ds))"

text \<open>
  The string of a value that \<open>JSON.parse\<close> has returned: the elements of an array are
  joined with commas, \<open>null\<close> among them as the empty string, and an object is
  \<open>[object Object]\<close>, unless it has a member \<open>toString\<close> of its own. Such a member hides
  \<open>Object.prototype.toString\<close> and is not a function, and \<open>valueOf\<close> gives no primitive
  value, so the conversion throws a \<open>TypeError\<close>. An integer is printed in decimal (as
  \<open>String\<close> prints the integers below \<open>10 ^ 21\<close> in absolute value).
\<close>

fun js_String :: "json \<Rightarrow> js_error + string"
  and js_String_elements :: "json list \<Rightarrow> js_error + string list" where
  "js_String JNull = Inr ''null''"
| "js_String (JBool b) = Inr (if b then ''true'' else ''false'')"
| "js_String (JNumber i) = Inr (decimal i)"
| "js_String (JString s) = Inr s"
| "js_String (JArray vs) =
     (case js_String_elements vs of Inl e \<Rightarrow> Inl e | Inr ss \<Rightarrow> Inr (join '','' ss))"
| "js_String (JObject kvs) =
     (if map_of kvs ''toString'' \<noteq> None then Inl TypeError else Inr ''[object Object]'')"
| "js_String_elements [] = Inr []"
| "js_String_elements (v # vs) =
     (case (if v = JNull then Inr [] else js_String v) of
        Inl e \<Rightarrow> Inl e
      | Inr s \<Rightarrow> (case js_String_elements vs of Inl e \<Rightarrow> Inl e | Inr ss \<Rightarrow> Inr (s # ss)))"

text \<open>Base 64 with the URL alphabet and no padding.\<close>

definition b64_char :: "int \<Rightarrow> char" where
  "b64_char n =
     (''ABCDEFGHIJKLMNOPQRSTUVWXYZabcdefghijklmnopqrstuvwxyz0123456789-_'') ! nat (n mod 64)"

fun b64url :: "string \<Rightarrow> string" where
  "b64url [] = []"
| "b64url [a] =
     [b64_char (of_char a div 4), b64_char (of_char a mod 4 * 16)]"
| "b64url [a, b] =
     (let n = (of_char a * 256 + of_char b) * 4 in
      [b64_char (n div 4096), b64_char (n div 64 mod 64), b64_char (n mod 64)])"
| "b64url (a # b # c # r) =
     (let n = of_char a * 65536 + of_char b * 256 + of_char c in
      [b64_char (n div 262144), b64_char (n div 4096 mod 64), b64_char (n div 64 mod 64),
       b64_char (n mod 64)] @ b64url r)"

text \<open>
  A stand-in for the RSA signature: it throws on an empty key and otherwise answers a text
  that names the algorithm and encodes the signed data.
\<close>

definition node_sign :: "string \<Rightarrow> string \<Rightarrow> string \<Rightarrow> js_error + string" where
  "node_sign algorithm key data =
     (if key = [] then Inl (Error ''error:1E08010C:DECODER routines::unsupported'')
      else Inr (b64url (algorithm @ '':'' @ data)))"

definition node :: platform where
  "node =
     \<lparr>JSON_parse = node_JSON_parse,
      JSON_parse_key = node_JSON_parse_key,
      JSON_stringify = stringify,
      parseInt = node_parseInt,
      base64url = b64url,
      sign = node_sign,
      ToString = js_String\<rparr>"

section \<open>Sample inputs\<close>

text \<open>A \<open>sleep\<close> that leaves the world as it is.\<close>

definition sleep_idle :: "int \<Rightarrow> 'w \<Rightarrow> 'w" where
  "sleep_idle ms w = w"

text \<open>
  An operation that throws at every invocation; the world counts the invocations, and the
  value thrown is the count.
\<close>

definition always_throws :: "nat \<Rightarrow> (nat thrown + unit) \<times> nat" where
  "always_throws w = (Inl (Threw w), Suc w)"

text \<open>A network that answers every request with the given response.\<close>

definition answering :: "Response \<Rightarrow> 'w \<Rightarrow> string \<Rightarrow> RequestInit \<Rightarrow> (js_error thrown + Response) \<times> 'w" where
  "answering response w url init = (Inr response, w)"

definition no_options :: HttpOptions where
  "no_options = \<lparr>http_method = None, headers = None, body = None, timeout = None\<rparr>"

definition accounts_url :: string where
  "accounts_url = ''https://tagmanager.googleapis.com/tagmanager/v2/accounts''"

text \<open>A response with a status, one header or none, and a body.\<close>

definition response_of :: "int \<Rightarrow> (string \<times> string) option \<Rightarrow> string \<Rightarrow> Response" where
  "response_of st header text =
     \<lparr>resp_status = st,
      resp_headers = (case header of None \<Rightarrow> Map.empty | Some (k, v) \<Rightarrow> [k \<mapsto> v]),
      resp_text = text\<rparr>"

text \<open>
  The operation that requests the accounts URL on a network that answers with the given
  response.
\<close>

definition answered :: "Response \<Rightarrow> unit \<Rightarrow> (js_error thrown + json) \<times> unit" where
  "answered response = request node (answering response) accounts_url no_options"

text \<open>
  A \<open>sleep\<close> that notes its argument in the world, a list of the delays asked for so far,
  and the same operation in such a world.
\<close>

definition sleep_noting :: "int \<Rightarrow> int list \<Rightarrow> int list" where
  "sleep_noting ms w = w @ [ms]"

definition answered_noting :: "Response \<Rightarrow> int list \<Rightarrow> (js_error thrown + json) \<times> int list" where
  "answered_noting response = request node (answering response) accounts_url no_options"

text \<open>The date form of the \<open>retry-after\<close> header.\<close>

definition http_date :: string where
  "http_date = ''Wed, 21 Oct 2015 07:28:00 GMT''"

text \<open>
  A network that is offline: it rejects every request and records the arguments that
  \<open>fetch\<close> was called with.
\<close>

definition recording ::
  "(string \<times> RequestInit) list \<Rightarrow> string \<Rightarrow> RequestInit
     \<Rightarrow> (js_error thrown + Response) \<times> (string \<times> RequestInit) list" where
  "recording w url init = (Inl (Threw (FetchFailed ''fetch failed'')), w @ [(url, init)])"

text \<open>Bodies of responses.\<close>

definition body_backend_error :: string where
  \<open>body_backend_error = ''{"error":{"message":"Backend Error"}}''\<close>

definition body_bad_request :: string where
  \<open>body_bad_request = ''{"message":"Bad Request"}''\<close>

definition body_number_message :: string where
  \<open>body_number_message = ''{"message":123}''\<close>

definition body_object_message :: string where
  \<open>body_object_message = ''{"error":{"message":{"toString":1}}}''\<close>

definition body_accounts :: string where
  \<open>body_accounts = ''{"account":[{"accountId":"123","name":"Test"}]}''\<close>

text \<open>Options with the given headers only.\<close>

definition with_headers :: "(string \<times> string) list \<Rightarrow> HttpOptions" where
  "with_headers hs = \<lparr>http_method = None, headers = Some (map_of hs), body = None, timeout = None\<rparr>"

text \<open>
  A key file, a token endpoint that answers every post with the access token \<open>T\<close> valid for
  3600 seconds, and one that refuses every post.
\<close>

definition key_file_text :: string where
  \<open>key_file_text =
     ''{"type":"service_account","project_id":"p","private_key_id":"1","private_key":"PEM",'' @
     ''"client_email":"x@y.iam","client_id":"2","auth_uri":"https://accounts.google.com/o/oauth2/auth",'' @
     ''"token_uri":"https://oauth2.googleapis.com/token"}''\<close>

definition granting :: "FormPost \<Rightarrow> js_error + TokenResponse" where
  "granting p =
     Inr \<lparr>tok_ok = True, tok_text = [], tok_access_token = ''T'', tok_refresh_token = [],
          tok_expires_in = 3600\<rparr>"

definition refusing :: "FormPost \<Rightarrow> js_error + TokenResponse" where
  "refusing p =
     Inr \<lparr>tok_ok = False, tok_text = ''invalid_grant'', tok_access_token = [], tok_refresh_token = [],
          tok_expires_in = 0\<rparr>"

text \<open>
  A world at the time 1700000000000 with the key file at \<open>/keys/sa.json\<close>, no token in the
  environment, no post made, and the given \<open>auth\<close> object and token endpoint.
\<close>

definition world_of :: "AuthConfig option \<Rightarrow> (FormPost \<Rightarrow> js_error + TokenResponse) \<Rightarrow> world" where
  "world_of a net =
     \<lparr>env_GTM_ACCESS_TOKEN = None,
      config = \<lparr>defaults = None, auth = a\<rparr>,
      Date_now = 1700000000000,
      files = [''/keys/sa.json'' \<mapsto> key_file_text],
      network = net,
      posts = []\<rparr>"

text \<open>
  An \<open>auth\<close> object of the OAuth shape with the given expiry and refresh token, and one that
  has the fields of both shapes.
\<close>

definition oauth_record :: "int option \<Rightarrow> string option \<Rightarrow> AuthConfig" where
  "oauth_record expires refresh =
     \<lparr>oauth_token = Some ''old'', oauth_refresh_token = refresh, oauth_expires_at = expires,
      client_id = Some ''id'', client_secret = Some ''secret'', service_account_key_path = None\<rparr>"

definition both_record :: AuthConfig where
  "both_record = (oauth_record None None)\<lparr>service_account_key_path := Some ''/keys/sa.json''\<rparr>"

text \<open>The key that \<open>key_file_text\<close> holds.\<close>

definition sample_key :: ServiceAccountKey where
  "sample_key =
     \<lparr>key_type = ''service_account'', project_id = ''p'', private_key_id = ''1'',
      private_key = ''PEM'', client_email = ''x@y.iam'', key_client_id = ''2'',
      auth_uri = ''https://accounts.google.com/o/oauth2/auth'',
      token_uri = ''https://oauth2.googleapis.com/token''\<rparr>"

text \<open>Callbacks: the parameters \<open>code\<close>, \<open>state\<close> and \<open>error\<close> of a request.\<close>

definition callback :: "string option \<Rightarrow> string option \<Rightarrow> string option \<Rightarrow> server_event" where
  "callback c s e = Incoming (Some \<lparr>sp_code = c, sp_state = s, sp_error = e\<rparr>)"

section \<open>The message of an API error, in the words of the specification\<close>

text \<open>
  The member \<open>message\<close> of the member \<open>error\<close> of the parsed body, and the member \<open>message\<close>
  of the parsed body: \<open>None\<close> when the body is not JSON, when it is the text \<open>null\<close>, or when
  there is no such member or it is \<open>null\<close>.
\<close>

definition body_error_message :: "platform \<Rightarrow> string \<Rightarrow> json option" where
  "body_error_message P text =
     (case JSON_parse P text of
        None \<Rightarrow> None
      | Some j \<Rightarrow>
          (if j = JNull then None
           else (case get_prop j ''error'' of
                   None \<Rightarrow> None
                 | Some e \<Rightarrow>
                     (if e = JNull then None
                      else (case get_prop e ''message'' of
                              None \<Rightarrow> None
                            | Some m \<Rightarrow> (if m = JNull then None else Some m))))))"

definition body_message :: "platform \<Rightarrow> string \<Rightarrow> json option" where
  "body_message P text =
     (case JSON_parse P text of
        None \<Rightarrow> None
      | Some j \<Rightarrow>
          (if j = JNull then None
           else (case get_prop j ''message'' of
                   None \<Rightarrow> None
                 | Some m \<Rightarrow> (if m = JNull then None else Some m))))"

text \<open>
  The message from \<open>error.message\<close>, else from \<open>message\<close>, else the raw text of the body,
  else \<open>HTTP <status>\<close>. A member that is a string is the message as it is; any other member
  gives its string, or \<open>Inl\<close> when its conversion to a string throws.
\<close>

definition api_error_message :: "platform \<Rightarrow> int \<Rightarrow> string \<Rightarrow> js_error + string" where
  "api_error_message P st text =
     (case body_error_message P text of
        Some m \<Rightarrow> String_of P m
      | None \<Rightarrow>
          (case body_message P text of
             Some m \<Rightarrow> String_of P m
           | None \<Rightarrow> Inr (if text \<noteq> [] then text else ''HTTP '' @ decimal st)))"

section \<open>The shapes of the credential record, in the words of the specification\<close>

text \<open>
  The record has the service-account shape when it has a key path, the OAuth shape when it
  has one of the five OAuth fields. At most one shape is active.
\<close>

definition service_account_shape :: "AuthConfig \<Rightarrow> bool" where
  "service_account_shape a = (service_account_key_path a \<noteq> None)"

definition oauth_shape :: "AuthConfig \<Rightarrow> bool" where
  "oauth_shape a =
     (oauth_token a \<noteq> None \<or> oauth_refresh_token a \<noteq> None \<or> oauth_expires_at a \<noteq> None
      \<or> client_id a \<noteq> None \<or> client_secret a \<noteq> None)"

definition one_shape :: "AuthConfig option \<Rightarrow> bool" where
  "one_shape r = (case r of None \<Rightarrow> True | Some a \<Rightarrow> \<not> (service_account_shape a \<and> oauth_shape a))"

section \<open>The token exchanges, in the words of the specification\<close>

text \<open>
  The refresh exchange: the refresh token and the client credentials, posted to the token
  endpoint.
\<close>

definition refresh_exchange :: "string \<Rightarrow> string \<Rightarrow> string \<Rightarrow> FormPost" where
  "refresh_exchange refreshToken clientId clientSecret =
     \<lparr>post_url = ''https://oauth2.googleapis.com/token'',
      post_form = [(''refresh_token'', refreshToken), (''client_id'', clientId),
                   (''client_secret'', clientSecret), (''grant_type'', ''refresh_token'')]\<rparr>"

text \<open>
  The claims of the assertion for a key at a time in milliseconds: the issuer is the email of
  the service account, the scope is the four scopes of the tag manager, the audience is the
  token endpoint of the key, it is issued now and expires 3600 seconds later.
\<close>

definition jwt_claims :: "ServiceAccountKey \<Rightarrow> int \<Rightarrow> json" where
  "jwt_claims key ms =
     JObject
       [(''iss'', JString (client_email key)),
        (''scope'', JString
           (''https://www.googleapis.com/auth/tagmanager.readonly '' @
            ''https://www.googleapis.com/auth/tagmanager.edit.containers '' @
            ''https://www.googleapis.com/auth/tagmanager.edit.containerversions '' @
            ''https://www.googleapis.com/auth/tagmanager.publish'')),
        (''aud'', JString (token_uri key)),
        (''iat'', JNumber (ms div 1000)),
        (''exp'', JNumber (ms div 1000 + 3600))]"

text \<open>What is signed: the encoded header and the encoded claims.\<close>

definition signing_input :: "platform \<Rightarrow> ServiceAccountKey \<Rightarrow> int \<Rightarrow> string" where
  "signing_input P key ms =
     base64url P (JSON_stringify P (JObject [(''alg'', JString ''RS256''), (''typ'', JString ''JWT'')]))
       @ ''.'' @ base64url P (JSON_stringify P (jwt_claims key ms))"

text \<open>
  The JWT exchange: the signed assertion, posted to the token endpoint of the key.
\<close>

definition jwt_exchange :: "platform \<Rightarrow> ServiceAccountKey \<Rightarrow> int \<Rightarrow> string \<Rightarrow> FormPost" where
  "jwt_exchange P key ms signature =
     \<lparr>post_url = token_uri key,
      post_form = [(''grant_type'', ''urn:ietf:params:oauth:grant-type:jwt-bearer''),
                   (''assertion'', signing_input P key ms @ ''.'' @ signature)]\<rparr>"

section \<open>Properties of the retry loop\<close>

lemma withRetry_loop_chain:
  "withRetry_loop sleep fn m d a le w = (r, w', tr) \<Longrightarrow> int a \<le> m \<Longrightarrow>
     \<exists>ws. ws \<noteq> [] \<and> hd ws = w \<and> int (length ws) \<le> m + 1 - int a
       \<and> (\<forall>i. Suc i < length ws \<longrightarrow>
             (\<exists>e w1. fn (ws ! i) = (Inl e, w1) \<and> ws ! Suc i = sleep (sleep_ms d (a + i) e) w1))
       \<and> fn (last ws) = (r, w')
       \<and> (isl r \<longrightarrow> int (length ws) = m + 1 - int a)
       \<and> attempts tr = map (\<lambda>v. fst (fn v)) ws"
proof (induction sleep fn m d a le w arbitrary: r w' tr rule: withRetry_loop.induct)
  case (1 sleep fn m d a le w)
  obtain res w1 where fw: "fn w = (res, w1)" by (cases "fn w")
  show ?case
  proof (cases res)
    case (Inr v)
    with 1(2,3) fw have "r = Inr v" "w' = w1" "tr = [Called (Inr v)]"
      by (auto simp add: withRetry_loop.simps[of sleep fn m d a le w])
    with fw Inr 1(3) show ?thesis
      by (intro exI[of _ "[w]"]) simp
  next
    case (Inl error)
    show ?thesis
    proof (cases "int a \<ge> m")
      case True
      with 1(2,3) fw Inl have "r = Inl error" "w' = w1" "tr = [Called (Inl error)]"
        by (auto simp add: withRetry_loop.simps[of sleep fn m d a le w])
      with fw Inl 1(3) True show ?thesis
        by (intro exI[of _ "[w]"]) simp
    next
      case False
      let ?w2 = "sleep (sleep_ms d a error) w1"
      obtain r2 w2 tr2 where
        rec: "withRetry_loop sleep fn m d (Suc a) error ?w2 = (r2, w2, tr2)"
        by (cases "withRetry_loop sleep fn m d (Suc a) error ?w2") auto
      from False have le': "int (Suc a) \<le> m" by simp
      from 1(1)[OF 1(3) fw[symmetric] Inl False rec le']
      obtain ws where ws: "ws \<noteq> []" "hd ws = ?w2" "int (length ws) \<le> m + 1 - int (Suc a)"
        "\<forall>i. Suc i < length ws \<longrightarrow>
             (\<exists>e w1. fn (ws ! i) = (Inl e, w1) \<and> ws ! Suc i = sleep (sleep_ms d (Suc a + i) e) w1)"
        "fn (last ws) = (r2, w2)"
        "isl r2 \<longrightarrow> int (length ws) = m + 1 - int (Suc a)"
        "attempts tr2 = map (\<lambda>v. fst (fn v)) ws"
        by blast
      from 1(2,3) fw Inl False rec
      have res: "r = r2" "w' = w2" "tr = Called (Inl error) # Slept (sleep_ms d a error) # tr2"
        by (auto simp add: withRetry_loop.simps[of sleep fn m d a le w])
      have chain: "\<forall>i. Suc i < length (w # ws) \<longrightarrow>
             (\<exists>e w1. fn ((w # ws) ! i) = (Inl e, w1)
                \<and> (w # ws) ! Suc i = sleep (sleep_ms d (a + i) e) w1)"
      proof (intro allI impI)
        fix i assume i: "Suc i < length (w # ws)"
        show "\<exists>e w1. fn ((w # ws) ! i) = (Inl e, w1)
                \<and> (w # ws) ! Suc i = sleep (sleep_ms d (a + i) e) w1"
        proof (cases i)
          case 0
          from ws(1,2) have "ws ! 0 = ?w2" by (cases ws) simp_all
          with 0 fw Inl show ?thesis by simp
        next
          case (Suc j)
          with i have "Suc j < length ws" by simp
          with ws(4) obtain e w1' where
            "fn (ws ! j) = (Inl e, w1')" "ws ! Suc j = sleep (sleep_ms d (Suc a + j) e) w1'"
            by blast
          with Suc show ?thesis by simp
        qed
      qed
      have "w # ws \<noteq> []" "hd (w # ws) = w" by simp_all
      moreover from ws(3) have "int (length (w # ws)) \<le> m + 1 - int a" by simp
      moreover from ws(1,5) res have "fn (last (w # ws)) = (r, w')" by simp
      moreover from ws(6) res have "isl r \<longrightarrow> int (length (w # ws)) = m + 1 - int a" by simp
      moreover from ws(7) res fw Inl have "attempts tr = map (\<lambda>v. fst (fn v)) (w # ws)" by simp
      ultimately show ?thesis using chain by (intro exI[of _ "w # ws"]) simp
    qed
  qed
qed

lemma always_throws_run:
  "withRetry sleep_idle always_throws 3 1000 0 =
     (Inl (Threw 3), 4,
      [Called (Inl (Threw 0)), Slept 1000, Called (Inl (Threw 1)), Slept 2000,
       Called (Inl (Threw 2)), Slept 4000, Called (Inl (Threw 3))])"
  by code_simp

text \<open>
  C1: with \<open>maxRetries = 3\<close> the invocations of the wrapped operation form a chain of at
  least one and at most four. The first runs in the world that \<open>withRetry\<close> starts in; each
  other one runs in the world that one \<open>sleep\<close> has made of the world left by the invocation
  before it, which threw. What \<open>withRetry\<close> returns or throws, and the world it leaves, are
  what the last invocation of the chain returns or throws and leaves. So when \<open>withRetry\<close>
  throws, the operation has thrown at each of exactly four invocations, and the value that
  the caller catches is the value that the fourth one threw, unchanged. The invocations
  listed in the trace are those of the chain, with their outcomes.
\<close>

theorem withRetry_three_retries:
  assumes "withRetry sleep fn 3 initialDelay w = (r, w', tr)"
  shows "\<exists>ws. ws \<noteq> [] \<and> hd ws = w \<and> length ws \<le> 4
       \<and> (\<forall>i. Suc i < length ws \<longrightarrow>
             (\<exists>e w1 ms. fn (ws ! i) = (Inl e, w1) \<and> ws ! Suc i = sleep ms w1))
       \<and> fn (last ws) = (r, w')
       \<and> (isl r \<longrightarrow> length ws = 4)
       \<and> attempts tr = map (\<lambda>v. fst (fn v)) ws"
proof -
  from assms have loop: "withRetry_loop sleep fn 3 initialDelay 0 Undefined w = (r, w', tr)"
    by (simp add: withRetry_def)
  have "int 0 \<le> 3" by simp
  from withRetry_loop_chain[OF loop this]
  obtain ws where ws: "ws \<noteq> []" "hd ws = w" "int (length ws) \<le> 3 + 1 - int 0"
    "\<forall>i. Suc i < length ws \<longrightarrow>
        (\<exists>e w1. fn (ws ! i) = (Inl e, w1) \<and> ws ! Suc i = sleep (sleep_ms initialDelay (0 + i) e) w1)"
    "fn (last ws) = (r, w')"
    "isl r \<longrightarrow> int (length ws) = 3 + 1 - int 0"
    "attempts tr = map (\<lambda>v. fst (fn v)) ws"
    by blast
  from ws(3) have len: "length ws \<le> 4" by simp
  from ws(6) have four: "isl r \<longrightarrow> length ws = 4" by simp
  from ws(4) have chain: "\<forall>i. Suc i < length ws \<longrightarrow>
             (\<exists>e w1 ms. fn (ws ! i) = (Inl e, w1) \<and> ws ! Suc i = sleep ms w1)"
    by blast
  show ?thesis
    by (rule exI[of _ ws], intro conjI, rule ws(1), rule ws(2), rule len, rule chain,
        rule ws(5), rule four, rule ws(7))
qed

theorem withRetry_three_retries_witness:
  "withRetry sleep_idle always_throws 3 1000 0 =
     (Inl (Threw 3), 4,
      [Called (Inl (Threw 0)), Slept 1000, Called (Inl (Threw 1)), Slept 2000,
       Called (Inl (Threw 2)), Slept 4000, Called (Inl (Threw 3))])
   \<and> (\<exists>ws. ws \<noteq> [] \<and> hd ws = 0 \<and> length ws \<le> 4
       \<and> (\<forall>i. Suc i < length ws \<longrightarrow>
             (\<exists>e w1 ms. always_throws (ws ! i) = (Inl e, w1) \<and> ws ! Suc i = sleep_idle ms w1))
       \<and> always_throws (last ws) = (Inl (Threw 3), 4)
       \<and> (isl (Inl (Threw 3) :: nat thrown + unit) \<longrightarrow> length ws = 4)
       \<and> attempts
            [Called (Inl (Threw 0)), Slept 1000, Called (Inl (Threw 1)), Slept 2000,
             Called (Inl (Threw 2)), Slept 4000, Called (Inl (Threw 3))] =
           map (\<lambda>v. fst (always_throws v)) ws)"
  by (intro conjI, rule always_throws_run, rule withRetry_three_retries[OF always_throws_run])

lemma sleep_ms_cases:
  "(\<forall>h s. e = HttpErr h \<and> retryAfter h = Some (Num s) \<and> s \<noteq> 0
       \<longrightarrow> sleep_ms initialDelay i e = s * 1000)
   \<and> ((\<forall>h. e = HttpErr h
          \<longrightarrow> retryAfter h = None \<or> retryAfter h = Some NaN \<or> retryAfter h = Some (Num 0))
       \<longrightarrow> sleep_ms initialDelay i e = initialDelay * 2 ^ i)"
  by (cases e) (auto simp add: sleep_ms_def)

lemma rate_limited_30_run:
  "withRetry sleep_noting (answered_noting (response_of 429 (Some (''retry-after'', ''30'')) [])) 1 1000 [] =
    (Inl (HttpErr \<lparr>message = ''Rate limit exceeded'', code = ''RATE_LIMITED'',
                   status = 429, retryAfter = Some (Num 30)\<rparr>), [30000],
     [Called (Inl (HttpErr \<lparr>message = ''Rate limit exceeded'', code = ''RATE_LIMITED'',
                   status = 429, retryAfter = Some (Num 30)\<rparr>)),
      Slept 30000,
      Called (Inl (HttpErr \<lparr>message = ''Rate limit exceeded'', code = ''RATE_LIMITED'',
                   status = 429, retryAfter = Some (Num 30)\<rparr>))])"
  by code_simp

lemma not_found_run:
  "withRetry sleep_noting (answered_noting (response_of 404 None [])) 1 1000 [] =
    (Inl (HttpErr \<lparr>message = ''Resource not found. Check the IDs provided.'',
                   code = ''NOT_FOUND'', status = 404, retryAfter = None\<rparr>), [1000],
     [Called (Inl (HttpErr \<lparr>message = ''Resource not found. Check the IDs provided.'',
                   code = ''NOT_FOUND'', status = 404, retryAfter = None\<rparr>)),
      Slept 1000,
      Called (Inl (HttpErr \<lparr>message = ''Resource not found. Check the IDs provided.'',
                   code = ''NOT_FOUND'', status = 404, retryAfter = None\<rparr>))])"
  by code_simp

text \<open>
  C3, as the code has it. The attempts run in a chain of worlds. Whenever the attempt with an
  index \<open>i < maxRetries\<close> throws, there is an attempt \<open>i + 1\<close>, and it runs in the world that
  one call of \<open>sleep\<close> has made of the world left by attempt \<open>i\<close>. The argument of that call,
  in milliseconds, is a thousand times \<open>retryAfter\<close> when the value thrown is an \<open>HttpError\<close>
  whose \<open>retryAfter\<close> is a number other than \<open>0\<close> (and not \<open>NaN\<close>), whatever its code. For any
  other value thrown (one that is no \<open>HttpError\<close>, an \<open>HttpError\<close> without \<open>retryAfter\<close> such
  as \<open>AUTH_FAILED\<close> and \<open>NOT_FOUND\<close>, or one whose \<open>retryAfter\<close> is \<open>0\<close> or \<open>NaN\<close>) it is
  \<open>initialDelay * 2 ^ i\<close>, with nothing added. There is no attempt other than the first
  that does not follow an attempt that threw, with an index below \<open>maxRetries\<close>. How long
  the timer behind \<open>sleep\<close> waits for a given argument is not stated here.
\<close>

theorem withRetry_sleep_before_retry:
  assumes run: "withRetry sleep fn maxRetries initialDelay w = (r, w', tr)"
    and nonneg: "0 \<le> maxRetries"
  shows "\<exists>ws. ws \<noteq> [] \<and> hd ws = w \<and> fn (last ws) = (r, w')
       \<and> (\<forall>i e w1. i < length ws \<and> int i < maxRetries \<and> fn (ws ! i) = (Inl e, w1) \<longrightarrow>
             Suc i < length ws
             \<and> (\<forall>h s. e = HttpErr h \<and> retryAfter h = Some (Num s) \<and> s \<noteq> 0
                    \<longrightarrow> ws ! Suc i = sleep (s * 1000) w1)
             \<and> ((\<forall>h. e = HttpErr h
                      \<longrightarrow> retryAfter h = None \<or> retryAfter h = Some NaN \<or> retryAfter h = Some (Num 0))
                    \<longrightarrow> ws ! Suc i = sleep (initialDelay * 2 ^ i) w1))
       \<and> (\<forall>i. Suc i < length ws \<longrightarrow> int i < maxRetries \<and> isl (fst (fn (ws ! i))))
       \<and> attempts tr = map (\<lambda>v. fst (fn v)) ws"
proof -
  from run have loop: "withRetry_loop sleep fn maxRetries initialDelay 0 Undefined w = (r, w', tr)"
    by (simp add: withRetry_def)
  from nonneg have "int 0 \<le> maxRetries" by simp
  from withRetry_loop_chain[OF loop this]
  obtain ws where ws: "ws \<noteq> []" "hd ws = w" "int (length ws) \<le> maxRetries + 1 - int 0"
    "\<forall>i. Suc i < length ws \<longrightarrow>
        (\<exists>e w1. fn (ws ! i) = (Inl e, w1) \<and> ws ! Suc i = sleep (sleep_ms initialDelay (0 + i) e) w1)"
    "fn (last ws) = (r, w')"
    "isl r \<longrightarrow> int (length ws) = maxRetries + 1 - int 0"
    "attempts tr = map (\<lambda>v. fst (fn v)) ws"
    by blast
  have next_attempt: "Suc i < length ws"
    if "i < length ws" "int i < maxRetries" "fn (ws ! i) = (Inl e, w1)" for i e w1
  proof (rule ccontr)
    assume "\<not> Suc i < length ws"
    with that(1) have "i = length ws - 1" by simp
    with ws(1) have "ws ! i = last ws" by (simp add: last_conv_nth)
    with that(3) ws(5) have "isl r" by simp
    with ws(6) have "int (length ws) = maxRetries + 1" by simp
    with \<open>i = length ws - 1\<close> ws(1) that(2) show False by (cases ws) simp_all
  qed
  have slept: "ws ! Suc i = sleep (sleep_ms initialDelay i e) w1"
    if "Suc i < length ws" "fn (ws ! i) = (Inl e, w1)" for i e w1
    using ws(4) that by fastforce
  have a: "\<forall>i e w1. i < length ws \<and> int i < maxRetries \<and> fn (ws ! i) = (Inl e, w1) \<longrightarrow>
             Suc i < length ws
             \<and> (\<forall>h s. e = HttpErr h \<and> retryAfter h = Some (Num s) \<and> s \<noteq> 0
                    \<longrightarrow> ws ! Suc i = sleep (s * 1000) w1)
             \<and> ((\<forall>h. e = HttpErr h
                      \<longrightarrow> retryAfter h = None \<or> retryAfter h = Some NaN \<or> retryAfter h = Some (Num 0))
                    \<longrightarrow> ws ! Suc i = sleep (initialDelay * 2 ^ i) w1)"
  proof (intro allI impI, elim conjE)
    fix i e w1
    assume hyp: "i < length ws" "int i < maxRetries" "fn (ws ! i) = (Inl e, w1)"
    note n = next_attempt[OF hyp]
    note sl = slept[OF n hyp(3)]
    have c1: "sleep_ms initialDelay i e = s * 1000"
      if "e = HttpErr h \<and> retryAfter h = Some (Num s) \<and> s \<noteq> 0" for h s
      using sleep_ms_cases[of e initialDelay i] that by blast
    have c2: "sleep_ms initialDelay i e = initialDelay * 2 ^ i"
      if "\<forall>h. e = HttpErr h
            \<longrightarrow> retryAfter h = None \<or> retryAfter h = Some NaN \<or> retryAfter h = Some (Num 0)"
      using sleep_ms_cases[of e initialDelay i] that by blast
    show "Suc i < length ws
             \<and> (\<forall>h s. e = HttpErr h \<and> retryAfter h = Some (Num s) \<and> s \<noteq> 0
                    \<longrightarrow> ws ! Suc i = sleep (s * 1000) w1)
             \<and> ((\<forall>h. e = HttpErr h
                      \<longrightarrow> retryAfter h = None \<or> retryAfter h = Some NaN \<or> retryAfter h = Some (Num 0))
                    \<longrightarrow> ws ! Suc i = sleep (initialDelay * 2 ^ i) w1)"
    proof (intro conjI allI impI)
      show "Suc i < length ws" by (rule n)
    next
      fix h s
      assume "e = HttpErr h \<and> retryAfter h = Some (Num s) \<and> s \<noteq> 0"
      from c1[OF this] sl show "ws ! Suc i = sleep (s * 1000) w1" by simp
    next
      assume "\<forall>h. e = HttpErr h
            \<longrightarrow> retryAfter h = None \<or> retryAfter h = Some NaN \<or> retryAfter h = Some (Num 0)"
      from c2[OF this] sl show "ws ! Suc i = sleep (initialDelay * 2 ^ i) w1" by simp
    qed
  qed
  have b: "\<forall>i. Suc i < length ws \<longrightarrow> int i < maxRetries \<and> isl (fst (fn (ws ! i)))"
  proof (intro allI impI)
    fix i assume i: "Suc i < length ws"
    with ws(3) have "int i < maxRetries" by simp
    moreover from ws(4) i obtain e w1 where "fn (ws ! i) = (Inl e, w1)" by blast
    ultimately show "int i < maxRetries \<and> isl (fst (fn (ws ! i)))" by simp
  qed
  show ?thesis
    by (rule exI[of _ ws], intro conjI, rule ws(1), rule ws(2), rule ws(5), rule a, rule b,
        rule ws(7))
qed

theorem withRetry_sleep_before_retry_witness:
  "withRetry sleep_noting (answered_noting (response_of 429 (Some (''retry-after'', ''30'')) [])) 1 1000 [] =
    (Inl (HttpErr \<lparr>message = ''Rate limit exceeded'', code = ''RATE_LIMITED'',
                   status = 429, retryAfter = Some (Num 30)\<rparr>), [30000],
     [Called (Inl (HttpErr \<lparr>message = ''Rate limit exceeded'', code = ''RATE_LIMITED'',
                   status = 429, retryAfter = Some (Num 30)\<rparr>)),
      Slept 30000,
      Called (Inl (HttpErr \<lparr>message = ''Rate limit exceeded'', code = ''RATE_LIMITED'',
                   status = 429, retryAfter = Some (Num 30)\<rparr>))])
   \<and> withRetry sleep_noting (answered_noting (response_of 404 None [])) 1 1000 [] =
    (Inl (HttpErr \<lparr>message = ''Resource not found. Check the IDs provided.'',
                   code = ''NOT_FOUND'', status = 404, retryAfter = None\<rparr>), [1000],
     [Called (Inl (HttpErr \<lparr>message = ''Resource not found. Check the IDs provided.'',
                   code = ''NOT_FOUND'', status = 404, retryAfter = None\<rparr>)),
      Slept 1000,
      Called (Inl (HttpErr \<lparr>message = ''Resource not found. Check the IDs provided.'',
                   code = ''NOT_FOUND'', status = 404, retryAfter = None\<rparr>))])
   \<and> (0::int) \<le> 1
   \<and> (\<exists>ws. ws \<noteq> [] \<and> hd ws = [] \<and> (answered_noting (response_of 429 (Some (''retry-after'', ''30'')) [])) (last ws) = (Inl (HttpErr \<lparr>message = ''Rate limit exceeded'', code = ''RATE_LIMITED'',
                   status = 429, retryAfter = Some (Num 30)\<rparr>), [30000])
       \<and> (\<forall>i e w1. i < length ws \<and> int i < 1 \<and> (answered_noting (response_of 429 (Some (''retry-after'', ''30'')) [])) (ws ! i) = (Inl e, w1) \<longrightarrow>
             Suc i < length ws
             \<and> (\<forall>h s. e = HttpErr h \<and> retryAfter h = Some (Num s) \<and> s \<noteq> 0
                    \<longrightarrow> ws ! Suc i = sleep_noting (s * 1000) w1)
             \<and> ((\<forall>h. e = HttpErr h
                      \<longrightarrow> retryAfter h = None \<or> retryAfter h = Some NaN \<or> retryAfter h = Some (Num 0))
                    \<longrightarrow> ws ! Suc i = sleep_noting (1000 * 2 ^ i) w1))
       \<and> (\<forall>i. Suc i < length ws \<longrightarrow> int i < 1 \<and> isl (fst ((answered_noting (response_of 429 (Some (''retry-after'', ''30'')) [])) (ws ! i))))
       \<and> attempts [Called (Inl (HttpErr \<lparr>message = ''Rate limit exceeded'', code = ''RATE_LIMITED'',
                   status = 429, retryAfter = Some (Num 30)\<rparr>)),
      Slept 30000,
      Called (Inl (HttpErr \<lparr>message = ''Rate limit exceeded'', code = ''RATE_LIMITED'',
                   status = 429, retryAfter = Some (Num 30)\<rparr>))] = map (\<lambda>v. fst ((answered_noting (response_of 429 (Some (''retry-after'', ''30'')) [])) v)) ws)
   \<and> (\<exists>ws. ws \<noteq> [] \<and> hd ws = [] \<and> (answered_noting (response_of 404 None [])) (last ws) = (Inl (HttpErr \<lparr>message = ''Resource not found. Check the IDs provided.'',
                   code = ''NOT_FOUND'', status = 404, retryAfter = None\<rparr>), [1000])
       \<and> (\<forall>i e w1. i < length ws \<and> int i < 1 \<and> (answered_noting (response_of 404 None [])) (ws ! i) = (Inl e, w1) \<longrightarrow>
             Suc i < length ws
             \<and> (\<forall>h s. e = HttpErr h \<and> retryAfter h = Some (Num s) \<and> s \<noteq> 0
                    \<longrightarrow> ws ! Suc i = sleep_noting (s * 1000) w1)
             \<and> ((\<forall>h. e = HttpErr h
                      \<longrightarrow> retryAfter h = None \<or> retryAfter h = Some NaN \<or> retryAfter h = Some (Num 0))
                    \<longrightarrow> ws ! Suc i = sleep_noting (1000 * 2 ^ i) w1))
       \<and> (\<forall>i. Suc i < length ws \<longrightarrow> int i < 1 \<and> isl (fst ((answered_noting (response_of 404 None [])) (ws ! i))))
       \<and> attempts [Called (Inl (HttpErr \<lparr>message = ''Resource not found. Check the IDs provided.'',
                   code = ''NOT_FOUND'', status = 404, retryAfter = None\<rparr>)),
      Slept 1000,
      Called (Inl (HttpErr \<lparr>message = ''Resource not found. Check the IDs provided.'',
                   code = ''NOT_FOUND'', status = 404, retryAfter = None\<rparr>))] = map (\<lambda>v. fst ((answered_noting (response_of 404 None [])) v)) ws)"
proof -
  have n: "(0::int) \<le> 1" by simp
  note a = withRetry_sleep_before_retry[OF rate_limited_30_run n]
  note b = withRetry_sleep_before_retry[OF not_found_run n]
  from rate_limited_30_run not_found_run n a b show ?thesis by (intro conjI)
qed

theorem withRetry_retry_after_zero_counterexample:
  "fst (answered_noting (response_of 429 (Some (''retry-after'', ''0'')) []) []) =
     Inl (HttpErr \<lparr>message = ''Rate limit exceeded'', code = ''RATE_LIMITED'',
                   status = 429, retryAfter = Some (Num 0)\<rparr>)
   \<and> fst (snd (withRetry sleep_noting (answered_noting (response_of 429 (Some (''retry-after'', ''0'')) [])) 3 1000 [])) = [1000, 2000, 4000]
   \<and> hd (fst (snd (withRetry sleep_noting (answered_noting (response_of 429 (Some (''retry-after'', ''0'')) [])) 3 1000 []))) \<noteq> 0 * 1000"
  by code_simp

section \<open>Properties of request\<close>

lemma answering_fetch: "answering response w url init = (Inr response, w)"
  by (simp add: answering_def)

lemma node_parse_empty: "JSON_parse node [] = None"
  by code_simp

lemma api_error_message_code:
  assumes "JSON_parse P [] = None"
  shows "String_of P
           (case JSON_parse P text of
            None \<Rightarrow> (if text \<noteq> [] then JString text else JString (''HTTP '' @ decimal st))
          | Some json \<Rightarrow>
              (if json = JNull then (if text \<noteq> [] then JString text else JString (''HTTP '' @ decimal st))
               else coalesce_to
                      (coalesce (opt_prop (get_prop json ''error'') ''message'') (get_prop json ''message''))
                      (JString text)))
         = api_error_message P st text"
  using assms
  by (cases "text = []")
     (auto simp add: api_error_message_def body_error_message_def body_message_def coalesce_to_def
        coalesce_def opt_prop_def nullish_def split: option.splits)

lemma throw_new_HttpError_String:
  "throw_new_HttpError P m c st ra =
     (case String_of P m of
        Inl e \<Rightarrow> Threw e
      | Inr s \<Rightarrow> HttpErr \<lparr>message = s, code = c, status = st, retryAfter = ra\<rparr>)"
  by (simp add: throw_new_HttpError_def new_HttpError_def split: sum.splits)

lemma throw_new_HttpError_literal:
  "throw_new_HttpError P (JString s) c st ra =
     HttpErr \<lparr>message = s, code = c, status = st, retryAfter = ra\<rparr>"
  by (simp add: throw_new_HttpError_String)

text \<open>
  C2, as the code has it: how \<open>request\<close> classifies a response. Status 429 fails with
  \<open>RATE_LIMITED\<close>, carrying \<open>parseInt\<close> of the \<open>retry-after\<close> header when the header is
  there and its value is not empty, and nothing otherwise; \<open>parseInt\<close> answers the integer
  that the value starts with, or \<open>NaN\<close> when it starts with none, as a date does. Status 401
  or 403 fails with \<open>AUTH_FAILED\<close>, status 404 with \<open>NOT_FOUND\<close>. Any other status outside
  200 to 299 fails with \<open>API_ERROR\<close>, which carries the status and, as its message, the
  string of \<open>error.message\<close> of the parsed body (the member itself when it is a string),
  else that of its \<open>message\<close>, else the raw text of the body, else \<open>HTTP <status>\<close>; when
  the conversion of the member to a string throws, \<open>request\<close> throws what the conversion
  has thrown. The empty text is not JSON.
\<close>

theorem request_classification:
  assumes "fetch w url (request_init P options) = (Inr response, w1)"
    and "JSON_parse P [] = None"
  shows "(resp_status response = 429 \<longrightarrow>
            request P fetch url options w =
              (Inl (HttpErr
                 \<lparr>message = ''Rate limit exceeded'', code = ''RATE_LIMITED'', status = 429,
                  retryAfter = (case resp_headers response ''retry-after'' of
                                  None \<Rightarrow> None
                                | Some s \<Rightarrow> (if s = [] then None else Some (parseInt P s)))\<rparr>), w1))
       \<and> (resp_status response = 401 \<or> resp_status response = 403 \<longrightarrow>
            request P fetch url options w =
              (Inl (HttpErr
                 \<lparr>message = ''Authentication failed. Check your credentials or run: gtm auth login'',
                  code = ''AUTH_FAILED'', status = resp_status response, retryAfter = None\<rparr>), w1))
       \<and> (resp_status response = 404 \<longrightarrow>
            request P fetch url options w =
              (Inl (HttpErr
                 \<lparr>message = ''Resource not found. Check the IDs provided.'',
                  code = ''NOT_FOUND'', status = resp_status response, retryAfter = None\<rparr>), w1))
       \<and> (resp_status response \<notin> {429, 401, 403, 404} \<and> \<not> ok response \<longrightarrow>
            request P fetch url options w =
              (Inl (case api_error_message P (resp_status response) (resp_text response) of
                      Inl e \<Rightarrow> Threw e
                    | Inr m \<Rightarrow>
                        HttpErr \<lparr>message = m, code = ''API_ERROR'', status = resp_status response,
                                 retryAfter = None\<rparr>), w1))"
proof -
  note msg = api_error_message_code[OF assms(2), of "resp_text response" "resp_status response"]
  have a: "resp_status response = 429 \<longrightarrow>
            request P fetch url options w =
              (Inl (HttpErr
                 \<lparr>message = ''Rate limit exceeded'', code = ''RATE_LIMITED'', status = 429,
                  retryAfter = (case resp_headers response ''retry-after'' of
                                  None \<Rightarrow> None
                                | Some s \<Rightarrow> (if s = [] then None else Some (parseInt P s)))\<rparr>), w1)"
    using assms(1)
    by (auto simp add: request_def throw_new_HttpError_literal split: option.splits)
  have b: "resp_status response = 401 \<or> resp_status response = 403 \<longrightarrow>
            request P fetch url options w =
              (Inl (HttpErr
                 \<lparr>message = ''Authentication failed. Check your credentials or run: gtm auth login'',
                  code = ''AUTH_FAILED'', status = resp_status response, retryAfter = None\<rparr>), w1)"
    using assms(1) by (auto simp add: request_def throw_new_HttpError_literal)
  have c: "resp_status response = 404 \<longrightarrow>
            request P fetch url options w =
              (Inl (HttpErr
                 \<lparr>message = ''Resource not found. Check the IDs provided.'',
                  code = ''NOT_FOUND'', status = resp_status response, retryAfter = None\<rparr>), w1)"
    using assms(1) by (auto simp add: request_def throw_new_HttpError_literal)
  have d: "resp_status response \<notin> {429, 401, 403, 404} \<and> \<not> ok response \<longrightarrow>
            request P fetch url options w =
              (Inl (case api_error_message P (resp_status response) (resp_text response) of
                      Inl e \<Rightarrow> Threw e
                    | Inr m \<Rightarrow>
                        HttpErr \<lparr>message = m, code = ''API_ERROR'', status = resp_status response,
                                 retryAfter = None\<rparr>), w1)"
  proof
    assume h: "resp_status response \<notin> {429, 401, 403, 404} \<and> \<not> ok response"
    with assms(1) have "request P fetch url options w =
              (Inl (throw_new_HttpError P
                 (case JSON_parse P (resp_text response) of
                       None \<Rightarrow> (if resp_text response \<noteq> [] then JString (resp_text response)
                                else JString (''HTTP '' @ decimal (resp_status response)))
                     | Some json \<Rightarrow>
                         (if json = JNull
                          then (if resp_text response \<noteq> [] then JString (resp_text response)
                                else JString (''HTTP '' @ decimal (resp_status response)))
                          else coalesce_to
                                 (coalesce (opt_prop (get_prop json ''error'') ''message'')
                                    (get_prop json ''message''))
                                 (JString (resp_text response))))
                 ''API_ERROR'' (resp_status response) None), w1)"
      by (cases "JSON_parse P (resp_text response)"; cases "resp_text response = []")
         (simp_all add: request_def Let_def)
    then show "request P fetch url options w =
              (Inl (case api_error_message P (resp_status response) (resp_text response) of
                      Inl e \<Rightarrow> Threw e
                    | Inr m \<Rightarrow>
                        HttpErr \<lparr>message = m, code = ''API_ERROR'', status = resp_status response,
                                 retryAfter = None\<rparr>), w1)"
      by (simp only: throw_new_HttpError_String msg)
  qed
  show ?thesis
    by (intro conjI, rule a, rule b, rule c, rule d)
qed

theorem request_classification_witness:
  "answered (response_of 429 (Some (''retry-after'', ''30'')) []) () =
     (Inl (HttpErr \<lparr>message = ''Rate limit exceeded'', code = ''RATE_LIMITED'',
                    status = 429, retryAfter = Some (Num 30)\<rparr>), ())
   \<and> answered (response_of 429 None []) () =
     (Inl (HttpErr \<lparr>message = ''Rate limit exceeded'', code = ''RATE_LIMITED'',
                    status = 429, retryAfter = None\<rparr>), ())
   \<and> answered (response_of 403 None body_backend_error) () =
     (Inl (HttpErr \<lparr>message = ''Authentication failed. Check your credentials or run: gtm auth login'', code = ''AUTH_FAILED'',
                    status = 403, retryAfter = None\<rparr>), ())
   \<and> answered (response_of 404 None []) () =
     (Inl (HttpErr \<lparr>message = ''Resource not found. Check the IDs provided.'', code = ''NOT_FOUND'',
                    status = 404, retryAfter = None\<rparr>), ())
   \<and> answered (response_of 500 None body_backend_error) () =
     (Inl (HttpErr \<lparr>message = ''Backend Error'', code = ''API_ERROR'',
                    status = 500, retryAfter = None\<rparr>), ())
   \<and> answered (response_of 400 None body_bad_request) () =
     (Inl (HttpErr \<lparr>message = ''Bad Request'', code = ''API_ERROR'',
                    status = 400, retryAfter = None\<rparr>), ())
   \<and> answered (response_of 400 None body_number_message) () =
     (Inl (HttpErr \<lparr>message = ''123'', code = ''API_ERROR'',
                    status = 400, retryAfter = None\<rparr>), ())
   \<and> answered (response_of 502 None ''Bad Gateway'') () =
     (Inl (HttpErr \<lparr>message = ''Bad Gateway'', code = ''API_ERROR'',
                    status = 502, retryAfter = None\<rparr>), ())
   \<and> answered (response_of 503 None []) () =
     (Inl (HttpErr \<lparr>message = ''HTTP 503'', code = ''API_ERROR'',
                    status = 503, retryAfter = None\<rparr>), ())
   \<and> answered (response_of 500 None body_object_message) () =
     (Inl (Threw TypeError), ())"
proof -
  have ra: "(case resp_headers (response_of 429 (Some (''retry-after'', ''30'')) []) ''retry-after'' of
               None \<Rightarrow> None
             | Some s \<Rightarrow> (if s = [] then None else Some (parseInt node s))) = Some (Num 30)"
    by code_simp
  have m1: "api_error_message node 500 body_backend_error = Inr ''Backend Error''"
    by code_simp
  have m2: "api_error_message node 400 body_bad_request = Inr ''Bad Request''"
    by code_simp
  have m3: "api_error_message node 502 ''Bad Gateway'' = Inr ''Bad Gateway''"
    by code_simp
  have m4: "api_error_message node 503 [] = Inr ''HTTP 503''"
    by code_simp
  have m5: "api_error_message node 400 body_number_message = Inr ''123''"
    by code_simp
  have m6: "api_error_message node 500 body_object_message = Inl TypeError"
    by code_simp
  have T: "\<And>r. (resp_status r = 429 \<longrightarrow>
            answered r () =
              (Inl (HttpErr
                 \<lparr>message = ''Rate limit exceeded'', code = ''RATE_LIMITED'', status = 429,
                  retryAfter = (case resp_headers r ''retry-after'' of
                                  None \<Rightarrow> None
                                | Some s \<Rightarrow> (if s = [] then None else Some (parseInt node s)))\<rparr>), ()))
       \<and> (resp_status r = 401 \<or> resp_status r = 403 \<longrightarrow>
            answered r () =
              (Inl (HttpErr
                 \<lparr>message = ''Authentication failed. Check your credentials or run: gtm auth login'',
                  code = ''AUTH_FAILED'', status = resp_status r, retryAfter = None\<rparr>), ()))
       \<and> (resp_status r = 404 \<longrightarrow>
            answered r () =
              (Inl (HttpErr
                 \<lparr>message = ''Resource not found. Check the IDs provided.'',
                  code = ''NOT_FOUND'', status = resp_status r, retryAfter = None\<rparr>), ()))
       \<and> (resp_status r \<notin> {429, 401, 403, 404} \<and> \<not> ok r \<longrightarrow>
            answered r () =
              (Inl (case api_error_message node (resp_status r) (resp_text r) of
                      Inl e \<Rightarrow> Threw e
                    | Inr m \<Rightarrow>
                        HttpErr \<lparr>message = m, code = ''API_ERROR'', status = resp_status r,
                                 retryAfter = None\<rparr>), ()))"
    unfolding answered_def
    by (rule request_classification[where fetch = "answering r" for r, OF answering_fetch node_parse_empty])
  from T[of "response_of 429 (Some (''retry-after'', ''30'')) []"]
       T[of "response_of 429 None []"]
       T[of "response_of 403 None body_backend_error"]
       T[of "response_of 404 None []"]
       T[of "response_of 500 None body_backend_error"]
       T[of "response_of 400 None body_bad_request"]
       T[of "response_of 400 None body_number_message"]
       T[of "response_of 502 None ''Bad Gateway''"]
       T[of "response_of 503 None []"]
       T[of "response_of 500 None body_object_message"]
  show ?thesis
    using ra m1 m2 m3 m4 m5 m6 by (simp add: response_of_def ok_def)
qed

theorem request_retry_after_counterexample:
  "answered (response_of 429 (Some (''retry-after'', http_date)) []) () =
     (Inl (HttpErr \<lparr>message = ''Rate limit exceeded'', code = ''RATE_LIMITED'',
                    status = 429, retryAfter = Some NaN\<rparr>), ())
   \<and> resp_headers (response_of 429 (Some (''retry-after'', [])) []) ''retry-after'' = Some []
   \<and> answered (response_of 429 (Some (''retry-after'', [])) []) () =
     (Inl (HttpErr \<lparr>message = ''Rate limit exceeded'', code = ''RATE_LIMITED'',
                    status = 429, retryAfter = None\<rparr>), ())"
  by code_simp

text \<open>
  C4, as the code has it: for a response with a status from 200 to 299, an empty body gives
  the empty object (no throw, no \<open>null\<close>, no \<open>undefined\<close>); a body that is not empty gives
  exactly the value that \<open>JSON.parse\<close> returns for it, which is \<open>null\<close> for the text \<open>null\<close>,
  and a \<open>SyntaxError\<close> when it is not valid JSON.
\<close>

theorem request_success_body:
  assumes "fetch w url (request_init P options) = (Inr response, w1)" and "ok response"
  shows "(resp_text response = [] \<longrightarrow> request P fetch url options w = (Inr (JObject []), w1))
       \<and> (resp_text response \<noteq> [] \<longrightarrow>
            (\<forall>j. JSON_parse P (resp_text response) = Some j
                  \<longrightarrow> request P fetch url options w = (Inr j, w1))
          \<and> (JSON_parse P (resp_text response) = None
                  \<longrightarrow> request P fetch url options w = (Inl (Threw SyntaxError), w1)))"
  using assms by (auto simp add: request_def ok_def Let_def)

theorem request_success_body_witness:
  "ok (response_of 200 None []) \<and> ok (response_of 200 None body_accounts)
   \<and> ok (response_of 204 None ''<html>'')
   \<and> answered (response_of 200 None []) () = (Inr (JObject []), ())
   \<and> answered (response_of 200 None body_accounts) () =
       (Inr (JObject [(''account'',
               JArray [JObject [(''accountId'', JString ''123''), (''name'', JString ''Test'')]])]), ())
   \<and> answered (response_of 204 None ''<html>'') () = (Inl (Threw SyntaxError), ())"
proof -
  have o: "ok (response_of 200 None [])" "ok (response_of 200 None body_accounts)"
    "ok (response_of 204 None ''<html>'')"
    by (simp_all add: ok_def response_of_def)
  have p1: "JSON_parse node body_accounts =
      Some (JObject [(''account'',
               JArray [JObject [(''accountId'', JString ''123''), (''name'', JString ''Test'')]])])"
    by code_simp
  have p2: "JSON_parse node ''<html>'' = None"
    by code_simp
  have t: "body_accounts \<noteq> []" by code_simp
  from request_success_body[where fetch = "answering (response_of 200 None [])" and w = "()"
         and url = accounts_url and P = node and options = no_options, OF answering_fetch o(1)]
       request_success_body[where fetch = "answering (response_of 200 None body_accounts)" and w = "()"
         and url = accounts_url and P = node and options = no_options, OF answering_fetch o(2)]
       request_success_body[where fetch = "answering (response_of 204 None ''<html>'')" and w = "()"
         and url = accounts_url and P = node and options = no_options, OF answering_fetch o(3)]
  show ?thesis using o p1 p2 t by (simp add: answered_def response_of_def)
qed

theorem request_null_body_counterexample:
  "ok (response_of 200 None ''null'')
   \<and> answered (response_of 200 None ''null'') () = (Inr JNull, ())"
  by code_simp

text \<open>
  C9: the headers that \<open>request\<close> hands to \<open>fetch\<close> are the caller's headers, each with the
  value the caller gave it (so a header of the caller with the name \<open>Content-Type\<close> replaces
  the default), plus \<open>Content-Type: application/json\<close> when the caller gave none of that
  name, and nothing else. The names are the property names of the two objects. The last two
  parts say that this is what \<open>fetch\<close> receives: an offline network that records its
  arguments has recorded exactly them, and the result of \<open>request\<close> depends on the network
  only through its answer to them.
\<close>

theorem request_headers_merged:
  assumes "headers options = Some h"
  shows "(\<forall>k v. h k = Some v \<longrightarrow> init_headers (request_init P options) k = Some v)
       \<and> (h ''Content-Type'' = None
            \<longrightarrow> init_headers (request_init P options) ''Content-Type'' = Some ''application/json'')
       \<and> (\<forall>k. k \<noteq> ''Content-Type'' \<and> h k = None \<longrightarrow> init_headers (request_init P options) k = None)
       \<and> snd (request P recording url options log) = log @ [(url, request_init P options)]
       \<and> (\<forall>fetch'. fetch' w url (request_init P options) = fetch w url (request_init P options)
            \<longrightarrow> request P fetch' url options w = request P fetch url options w)"
proof -
  have a: "\<forall>k v. h k = Some v \<longrightarrow> init_headers (request_init P options) k = Some v"
    using assms by (simp add: request_init_def Let_def map_add_def)
  have b: "h ''Content-Type'' = None
            \<longrightarrow> init_headers (request_init P options) ''Content-Type'' = Some ''application/json''"
    using assms by (simp add: request_init_def Let_def map_add_def)
  have c: "\<forall>k. k \<noteq> ''Content-Type'' \<and> h k = None \<longrightarrow> init_headers (request_init P options) k = None"
    using assms by (simp add: request_init_def Let_def map_add_def)
  have d: "snd (request P recording url options log) = log @ [(url, request_init P options)]"
    by (simp add: request_def recording_def)
  have e: "\<forall>fetch'. fetch' w url (request_init P options) = fetch w url (request_init P options)
            \<longrightarrow> request P fetch' url options w = request P fetch url options w"
    by (simp add: request_def)
  from a b c d e show ?thesis by blast
qed

theorem request_headers_merged_witness:
  "init_headers (request_init node
       (with_headers [(''Authorization'', ''Bearer test-token''), (''Content-Type'', ''text/plain'')]))
     ''Content-Type'' = Some ''text/plain''
   \<and> init_headers (request_init node
       (with_headers [(''Authorization'', ''Bearer test-token''), (''Content-Type'', ''text/plain'')]))
     ''Authorization'' = Some ''Bearer test-token''
   \<and> init_headers (request_init node (with_headers [(''Authorization'', ''Bearer test-token'')]))
     ''Content-Type'' = Some ''application/json''
   \<and> init_headers (request_init node (with_headers [(''Authorization'', ''Bearer test-token'')]))
     ''Authorization'' = Some ''Bearer test-token''
   \<and> init_headers (request_init node (with_headers [(''Authorization'', ''Bearer test-token'')]))
     ''Accept'' = None"
proof -
  have h1: "headers (with_headers [(''Authorization'', ''Bearer test-token''), (''Content-Type'', ''text/plain'')])
       = Some (map_of [(''Authorization'', ''Bearer test-token''), (''Content-Type'', ''text/plain'')])"
    by (simp add: with_headers_def)
  have h2: "headers (with_headers [(''Authorization'', ''Bearer test-token'')])
       = Some (map_of [(''Authorization'', ''Bearer test-token'')])"
    by (simp add: with_headers_def)
  let ?o1 = "with_headers [(''Authorization'', ''Bearer test-token''), (''Content-Type'', ''text/plain'')]"
  let ?o2 = "with_headers [(''Authorization'', ''Bearer test-token'')]"
  note A = request_headers_merged[OF h1, of node]
  note B = request_headers_merged[OF h2, of node]
  note a = A[THEN conjunct1, rule_format]
  note b = B[THEN conjunct1, rule_format]
  note c = B[THEN conjunct2, THEN conjunct1, rule_format]
  note d = B[THEN conjunct2, THEN conjunct2, THEN conjunct1, rule_format]
  have "init_headers (request_init node ?o1) ''Content-Type'' = Some ''text/plain''"
    by (rule a) simp
  moreover have "init_headers (request_init node ?o1) ''Authorization'' = Some ''Bearer test-token''"
    by (rule a) simp
  moreover have "init_headers (request_init node ?o2) ''Content-Type'' = Some ''application/json''"
    by (rule c) simp
  moreover have "init_headers (request_init node ?o2) ''Authorization'' = Some ''Bearer test-token''"
    by (rule b) simp
  moreover have "init_headers (request_init node ?o2) ''Accept'' = None"
    by (rule d) simp
  ultimately show ?thesis by simp
qed

section \<open>Properties of the credential resolver\<close>

text \<open>
  C5: the order in which \<open>resolveAccessToken\<close> chooses the source of the token. A flag value
  that is given (a string that is not empty) is returned as it is, and nothing else is read
  or changed. Otherwise a token in the environment variable (not empty) is returned.
  Otherwise the persisted record decides: without a record the result is absent; with a
  record that has a key path (not empty) the result is that of the service-account exchange,
  whatever OAuth fields the record has besides.
\<close>

theorem resolve_priority:
  "(\<forall>t. flagValue = Some t \<and> t \<noteq> [] \<longrightarrow> resolveAccessToken P flagValue w = (Inr (Some t), w))
   \<and> (\<forall>t. \<not> truthy_str flagValue \<and> env_GTM_ACCESS_TOKEN w = Some t \<and> t \<noteq> []
          \<longrightarrow> resolveAccessToken P flagValue w = (Inr (Some t), w))
   \<and> (\<not> truthy_str flagValue \<and> \<not> truthy_str (env_GTM_ACCESS_TOKEN w) \<and> config_get_auth w = None
          \<longrightarrow> resolveAccessToken P flagValue w = (Inr None, w))
   \<and> (\<forall>a p. \<not> truthy_str flagValue \<and> \<not> truthy_str (env_GTM_ACCESS_TOKEN w)
            \<and> config_get_auth w = Some a \<and> service_account_key_path a = Some p \<and> p \<noteq> []
          \<longrightarrow> resolveAccessToken P flagValue w =
               (case getServiceAccountToken P p w of
                  (Inl e, w1) \<Rightarrow> (Inl e, w1)
                | (Inr token, w1) \<Rightarrow> (Inr (Some token), w1)))"
  by (simp add: resolveAccessToken_def Let_def)

lemma sa_token_sample:
  "fst (getServiceAccountToken node ''/keys/sa.json'' (world_of (Some both_record) granting)) = Inr ''T''"
  by code_simp

theorem resolve_priority_witness:
  "resolveAccessToken node (Some ''flag-token'') (world_of (Some both_record) granting) =
     (Inr (Some ''flag-token''), world_of (Some both_record) granting)
   \<and> resolveAccessToken node (Some [])
       ((world_of (Some both_record) granting)\<lparr>env_GTM_ACCESS_TOKEN := Some ''env-token''\<rparr>) =
     (Inr (Some ''env-token''),
      (world_of (Some both_record) granting)\<lparr>env_GTM_ACCESS_TOKEN := Some ''env-token''\<rparr>)
   \<and> resolveAccessToken node None (world_of None granting) = (Inr None, world_of None granting)
   \<and> fst (resolveAccessToken node None (world_of (Some both_record) granting)) = Inr (Some ''T'')"
proof -
  note R = resolve_priority[where P = node]
  have 1: "resolveAccessToken node (Some ''flag-token'') (world_of (Some both_record) granting) =
     (Inr (Some ''flag-token''), world_of (Some both_record) granting)"
    by (rule R[THEN conjunct1, rule_format]) simp
  have 2: "resolveAccessToken node (Some [])
       ((world_of (Some both_record) granting)\<lparr>env_GTM_ACCESS_TOKEN := Some ''env-token''\<rparr>) =
     (Inr (Some ''env-token''),
      (world_of (Some both_record) granting)\<lparr>env_GTM_ACCESS_TOKEN := Some ''env-token''\<rparr>)"
    by (rule R[THEN conjunct2, THEN conjunct1, rule_format]) simp
  have 3: "resolveAccessToken node None (world_of None granting) = (Inr None, world_of None granting)"
    by (rule R[THEN conjunct2, THEN conjunct2, THEN conjunct1, rule_format])
       (simp add: world_of_def config_get_auth_def)
  have "resolveAccessToken node None (world_of (Some both_record) granting) =
          (case getServiceAccountToken node ''/keys/sa.json'' (world_of (Some both_record) granting) of
             (Inl e, w1) \<Rightarrow> (Inl e, w1)
           | (Inr token, w1) \<Rightarrow> (Inr (Some token), w1))"
    by (rule R[THEN conjunct2, THEN conjunct2, THEN conjunct2, rule_format, where a = both_record])
       (simp add: world_of_def config_get_auth_def both_record_def oauth_record_def)
  with sa_token_sample
  have 4: "fst (resolveAccessToken node None (world_of (Some both_record) granting)) = Inr (Some ''T'')"
    by (cases "getServiceAccountToken node ''/keys/sa.json'' (world_of (Some both_record) granting)") auto
  from 1 2 3 4 show ?thesis by blast
qed

lemma refresh_post:
  "snd (refreshOAuthToken rt cid cs w) = w' \<Longrightarrow> posts w' = posts w @ [refresh_exchange rt cid cs]"
  by (auto simp add: refreshOAuthToken_def fetch_token_def refresh_exchange_def GOOGLE_TOKEN_URL_def
        config_write_def Let_def split: sum.splits)

lemma refresh_granted:
  "network w (refresh_exchange rt cid cs) = Inr resp \<Longrightarrow> tok_ok resp \<Longrightarrow>
     refreshOAuthToken rt cid cs w =
       (Inr (tok_access_token resp),
        w\<lparr>posts := posts w @ [refresh_exchange rt cid cs],
          config := (config w)
            \<lparr>auth := Some ((case auth (config w) of None \<Rightarrow> empty_auth | Some a \<Rightarrow> a)
               \<lparr>oauth_token := Some (tok_access_token resp),
                oauth_expires_at := Some (Date_now w + tok_expires_in resp * 1000)\<rparr>)\<rparr>\<rparr>)"
  by (simp add: refreshOAuthToken_def fetch_token_def refresh_exchange_def GOOGLE_TOKEN_URL_def
        config_write_def config_read_def Let_def)

lemma refresh_refused:
  "network w (refresh_exchange rt cid cs) = Inr resp \<Longrightarrow> \<not> tok_ok resp \<Longrightarrow>
     refreshOAuthToken rt cid cs w =
       (Inl (Threw (Error ''Failed to refresh OAuth token. Run: gtm auth login'')),
        w\<lparr>posts := posts w @ [refresh_exchange rt cid cs]\<rparr>)"
  by (simp add: refreshOAuthToken_def fetch_token_def refresh_exchange_def GOOGLE_TOKEN_URL_def)

text \<open>
  C6: a persisted OAuth record (a stored token, no key path) when neither the flag nor the
  environment gives a token. With no expiry recorded (an expiry of \<open>0\<close> counts as none) or
  an expiry that is not yet reached, the stored token is returned and the world is
  unchanged, so no post is made. With the expiry reached and the refresh token, client id
  and client secret there, exactly one post is made, the refresh exchange; when the endpoint
  grants it, the new token is returned and the record holds the new token and the new expiry
  with its other fields unchanged; when the endpoint refuses it, \<open>resolveAccessToken\<close> throws
  and the configuration is unchanged. With the expiry reached and one of the three missing,
  the result is absent and the world is unchanged.
\<close>

theorem resolve_oauth:
  assumes "\<not> truthy_str flagValue" and "\<not> truthy_str (env_GTM_ACCESS_TOKEN w)"
    and "config_get_auth w = Some a" and "\<not> truthy_str (service_account_key_path a)"
    and "oauth_token a = Some tok" and "tok \<noteq> []"
  shows
   "((oauth_expires_at a = None \<or> oauth_expires_at a = Some 0
        \<or> (\<exists>t. oauth_expires_at a = Some t \<and> Date_now w < t))
       \<longrightarrow> resolveAccessToken P flagValue w = (Inr (Some tok), w))
    \<and> (\<forall>t rt cid cs.
          oauth_expires_at a = Some t \<and> t \<noteq> 0 \<and> t \<le> Date_now w
          \<and> oauth_refresh_token a = Some rt \<and> rt \<noteq> [] \<and> client_id a = Some cid \<and> cid \<noteq> []
          \<and> client_secret a = Some cs \<and> cs \<noteq> []
        \<longrightarrow> posts (snd (resolveAccessToken P flagValue w)) = posts w @ [refresh_exchange rt cid cs]
          \<and> (\<forall>resp. network w (refresh_exchange rt cid cs) = Inr resp \<and> tok_ok resp
                \<longrightarrow> fst (resolveAccessToken P flagValue w) = Inr (Some (tok_access_token resp))
                  \<and> config_get_auth (snd (resolveAccessToken P flagValue w)) =
                      Some (a\<lparr>oauth_token := Some (tok_access_token resp),
                              oauth_expires_at := Some (Date_now w + tok_expires_in resp * 1000)\<rparr>))
          \<and> (\<forall>resp. network w (refresh_exchange rt cid cs) = Inr resp \<and> \<not> tok_ok resp
                \<longrightarrow> fst (resolveAccessToken P flagValue w) =
                      Inl (Threw (Error ''Failed to refresh OAuth token. Run: gtm auth login''))
                  \<and> config (snd (resolveAccessToken P flagValue w)) = config w))
    \<and> (\<forall>t. oauth_expires_at a = Some t \<and> t \<noteq> 0 \<and> t \<le> Date_now w
            \<and> \<not> (truthy_str (oauth_refresh_token a) \<and> truthy_str (client_id a)
                   \<and> truthy_str (client_secret a))
        \<longrightarrow> resolveAccessToken P flagValue w = (Inr None, w))"
proof -
  have valid: "(oauth_expires_at a = None \<or> oauth_expires_at a = Some 0
        \<or> (\<exists>t. oauth_expires_at a = Some t \<and> Date_now w < t))
       \<longrightarrow> resolveAccessToken P flagValue w = (Inr (Some tok), w)"
    using assms by (auto simp add: resolveAccessToken_def Let_def)
  have absent: "\<forall>t. oauth_expires_at a = Some t \<and> t \<noteq> 0 \<and> t \<le> Date_now w
            \<and> \<not> (truthy_str (oauth_refresh_token a) \<and> truthy_str (client_id a)
                   \<and> truthy_str (client_secret a))
        \<longrightarrow> resolveAccessToken P flagValue w = (Inr None, w)"
    using assms by (auto simp add: resolveAccessToken_def Let_def)
  have refresh: "resolveAccessToken P flagValue w =
          (case refreshOAuthToken rt cid cs w of
             (Inl e, w1) \<Rightarrow> (Inl e, w1)
           | (Inr token, w1) \<Rightarrow> (Inr (Some token), w1))"
    if "oauth_expires_at a = Some t" "t \<noteq> 0" "t \<le> Date_now w"
       "oauth_refresh_token a = Some rt" "rt \<noteq> []" "client_id a = Some cid" "cid \<noteq> []"
       "client_secret a = Some cs" "cs \<noteq> []" for t rt cid cs
    using assms that by (simp add: resolveAccessToken_def Let_def)
  have one: "posts (snd (resolveAccessToken P flagValue w)) = posts w @ [refresh_exchange rt cid cs]"
    if "oauth_expires_at a = Some t" "t \<noteq> 0" "t \<le> Date_now w"
       "oauth_refresh_token a = Some rt" "rt \<noteq> []" "client_id a = Some cid" "cid \<noteq> []"
       "client_secret a = Some cs" "cs \<noteq> []" for t rt cid cs
    using refresh_post[of rt cid cs w, OF refl] refresh[OF that]
    by (cases "refreshOAuthToken rt cid cs w"; cases "fst (refreshOAuthToken rt cid cs w)") auto
  have granted: "fst (resolveAccessToken P flagValue w) = Inr (Some (tok_access_token resp))
      \<and> config_get_auth (snd (resolveAccessToken P flagValue w)) =
           Some (a\<lparr>oauth_token := Some (tok_access_token resp),
                   oauth_expires_at := Some (Date_now w + tok_expires_in resp * 1000)\<rparr>)"
    if "oauth_expires_at a = Some t" "t \<noteq> 0" "t \<le> Date_now w"
       "oauth_refresh_token a = Some rt" "rt \<noteq> []" "client_id a = Some cid" "cid \<noteq> []"
       "client_secret a = Some cs" "cs \<noteq> []"
       "network w (refresh_exchange rt cid cs) = Inr resp" "tok_ok resp" for t rt cid cs resp
    using refresh[OF that(1-9)] refresh_granted[OF that(10,11)] assms(3)
    by (simp add: config_get_auth_def)
  have refused: "fst (resolveAccessToken P flagValue w) =
                      Inl (Threw (Error ''Failed to refresh OAuth token. Run: gtm auth login''))
      \<and> config (snd (resolveAccessToken P flagValue w)) = config w"
    if "oauth_expires_at a = Some t" "t \<noteq> 0" "t \<le> Date_now w"
       "oauth_refresh_token a = Some rt" "rt \<noteq> []" "client_id a = Some cid" "cid \<noteq> []"
       "client_secret a = Some cs" "cs \<noteq> []"
       "network w (refresh_exchange rt cid cs) = Inr resp" "\<not> tok_ok resp" for t rt cid cs resp
    using refresh[OF that(1-9)] refresh_refused[OF that(10,11)]
    by simp
  from valid absent one granted refused show ?thesis by blast
qed

theorem resolve_oauth_witness:
  "resolveAccessToken node None (world_of (Some (oauth_record (Some 1800000000000) (Some ''r''))) granting) =
     (Inr (Some ''old''), world_of (Some (oauth_record (Some 1800000000000) (Some ''r''))) granting)
   \<and> posts (snd (resolveAccessToken node None
               (world_of (Some (oauth_record (Some 1600000000000) (Some ''r''))) granting))) =
       [] @ [refresh_exchange ''r'' ''id'' ''secret'']
   \<and> fst (resolveAccessToken node None
               (world_of (Some (oauth_record (Some 1600000000000) (Some ''r''))) granting)) =
       Inr (Some ''T'')
   \<and> config_get_auth (snd (resolveAccessToken node None
               (world_of (Some (oauth_record (Some 1600000000000) (Some ''r''))) granting))) =
       Some \<lparr>oauth_token = Some ''T'', oauth_refresh_token = Some ''r'',
             oauth_expires_at = Some 1700003600000, client_id = Some ''id'',
             client_secret = Some ''secret'', service_account_key_path = None\<rparr>
   \<and> fst (resolveAccessToken node None
               (world_of (Some (oauth_record (Some 1600000000000) (Some ''r''))) refusing)) =
       Inl (Threw (Error ''Failed to refresh OAuth token. Run: gtm auth login''))
   \<and> resolveAccessToken node None (world_of (Some (oauth_record (Some 1600000000000) None)) granting) =
     (Inr None, world_of (Some (oauth_record (Some 1600000000000) None)) granting)"
proof -
  let ?valid = "world_of (Some (oauth_record (Some 1800000000000) (Some ''r''))) granting"
  let ?expired = "world_of (Some (oauth_record (Some 1600000000000) (Some ''r''))) granting"
  let ?refused = "world_of (Some (oauth_record (Some 1600000000000) (Some ''r''))) refusing"
  let ?bare = "world_of (Some (oauth_record (Some 1600000000000) None)) granting"
  have V: "resolveAccessToken node None ?valid = (Inr (Some ''old''), ?valid)"
    by (rule resolve_oauth[where w = ?valid and tok = "''old''" and flagValue = None
                and a = "oauth_record (Some 1800000000000) (Some ''r'')",
                THEN conjunct1, rule_format])
       (simp_all add: world_of_def oauth_record_def config_get_auth_def)
  note E = resolve_oauth[where w = ?expired and tok = "''old''" and flagValue = None and P = node
                and a = "oauth_record (Some 1600000000000) (Some ''r'')",
                THEN conjunct2, THEN conjunct1, rule_format,
                where t = 1600000000000 and rt = "''r''" and cid = "''id''" and cs = "''secret''"]
  have E1: "posts (snd (resolveAccessToken node None ?expired)) = [] @ [refresh_exchange ''r'' ''id'' ''secret'']"
    using E[THEN conjunct1] by (simp add: world_of_def oauth_record_def config_get_auth_def)
  have E2: "fst (resolveAccessToken node None ?expired) = Inr (Some ''T'')
      \<and> config_get_auth (snd (resolveAccessToken node None ?expired)) =
       Some \<lparr>oauth_token = Some ''T'', oauth_refresh_token = Some ''r'',
             oauth_expires_at = Some 1700003600000, client_id = Some ''id'',
             client_secret = Some ''secret'', service_account_key_path = None\<rparr>"
    using E[THEN conjunct2, THEN conjunct1, rule_format,
            where resp = "\<lparr>tok_ok = True, tok_text = [], tok_access_token = ''T'',
                             tok_refresh_token = [], tok_expires_in = 3600\<rparr>"]
    by (simp add: world_of_def oauth_record_def config_get_auth_def granting_def)
  note F = resolve_oauth[where w = ?refused and tok = "''old''" and flagValue = None and P = node
                and a = "oauth_record (Some 1600000000000) (Some ''r'')",
                THEN conjunct2, THEN conjunct1, rule_format,
                where t = 1600000000000 and rt = "''r''" and cid = "''id''" and cs = "''secret''"]
  have F1: "fst (resolveAccessToken node None ?refused) =
       Inl (Threw (Error ''Failed to refresh OAuth token. Run: gtm auth login''))"
    using F[THEN conjunct2, THEN conjunct2, rule_format,
            where resp = "\<lparr>tok_ok = False, tok_text = ''invalid_grant'', tok_access_token = [],
                             tok_refresh_token = [], tok_expires_in = 0\<rparr>"]
    by (simp add: world_of_def oauth_record_def config_get_auth_def refusing_def)
  have B: "resolveAccessToken node None ?bare = (Inr None, ?bare)"
    by (rule resolve_oauth[where w = ?bare and tok = "''old''" and flagValue = None
                and a = "oauth_record (Some 1600000000000) None",
                THEN conjunct2, THEN conjunct2, rule_format, where t = 1600000000000])
       (simp_all add: world_of_def oauth_record_def config_get_auth_def)
  from V E1 E2 F1 B show ?thesis by blast
qed

lemma service_account_exchange:
  assumes "readFileSync p w = Inr raw" and "JSON_parse_key P raw = Inr key"
    and "sign P ''RSA-SHA256'' (private_key key) (signing_input P key (Date_now w)) = Inr signature"
  shows "getServiceAccountToken P p w =
           ((case network w (jwt_exchange P key (Date_now w) signature) of
               Inl e \<Rightarrow> Inl (Threw e)
             | Inr response \<Rightarrow>
                 (if \<not> tok_ok response
                  then Inl (Threw (Error (''Service account token exchange failed: '' @ tok_text response)))
                  else Inr (tok_access_token response))),
            w\<lparr>posts := posts w @ [jwt_exchange P key (Date_now w) signature]\<rparr>)"
proof -
  have s: "base64url P (JSON_stringify P (JObject [(''alg'', JString ''RS256''), (''typ'', JString ''JWT'')]))
       @ ''.'' @ base64url P (JSON_stringify P
                               (JObject [(''iss'', JString (client_email key)),
                                         (''scope'', JString GTM_SCOPES),
                                         (''aud'', JString (token_uri key)),
                                         (''iat'', JNumber (Date_now w div 1000)),
                                         (''exp'', JNumber (Date_now w div 1000 + 3600))]))
     = signing_input P key (Date_now w)"
    by (simp add: signing_input_def jwt_claims_def GTM_SCOPES_def)
  show ?thesis
    using assms(1,2) assms(3)[folded s]
    by (cases "network w (jwt_exchange P key (Date_now w) signature)")
       (simp_all add: getServiceAccountToken_def Let_def fetch_token_def jwt_exchange_def s[symmetric])
qed

text \<open>
  C7: a persisted key path when neither the flag nor the environment gives a token, for a
  key file that is read and parsed, and a key that signs. The world after
  \<open>resolveAccessToken\<close> differs from the world before in one post only, the JWT exchange:
  the assertion \<open>header.claims.signature\<close> posted to the token endpoint of the key, where the
  claims are the issuer (the email of the key), the four scopes, the audience (the token
  endpoint of the key), the time of issue (now) and the expiry (now plus 3600 seconds), and
  the signature is made with \<open>RSA-SHA256\<close> and the private key of the key. Nothing is
  persisted, and a second invocation makes the exchange again. When the endpoint grants the
  exchange, its access token is the result.
\<close>

theorem resolve_service_account:
  assumes "\<not> truthy_str flagValue" and "\<not> truthy_str (env_GTM_ACCESS_TOKEN w)"
    and "config_get_auth w = Some a" and "service_account_key_path a = Some p" and "p \<noteq> []"
    and "readFileSync p w = Inr raw" and "JSON_parse_key P raw = Inr key"
    and "sign P ''RSA-SHA256'' (private_key key) (signing_input P key (Date_now w)) = Inr signature"
  shows "snd (resolveAccessToken P flagValue w) =
           w\<lparr>posts := posts w @ [jwt_exchange P key (Date_now w) signature]\<rparr>
       \<and> (\<forall>resp. network w (jwt_exchange P key (Date_now w) signature) = Inr resp \<and> tok_ok resp
             \<longrightarrow> fst (resolveAccessToken P flagValue w) = Inr (Some (tok_access_token resp)))
       \<and> posts (snd (resolveAccessToken P flagValue (snd (resolveAccessToken P flagValue w)))) =
           posts w @ [jwt_exchange P key (Date_now w) signature,
                      jwt_exchange P key (Date_now w) signature]"
proof -
  let ?x = "jwt_exchange P key (Date_now w) signature"
  let ?w' = "w\<lparr>posts := posts w @ [?x]\<rparr>"
  have branch: "resolveAccessToken P flagValue v =
          (case getServiceAccountToken P p v of
             (Inl e, w1) \<Rightarrow> (Inl e, w1)
           | (Inr token, w1) \<Rightarrow> (Inr (Some token), w1))"
    if "env_GTM_ACCESS_TOKEN v = env_GTM_ACCESS_TOKEN w" "config v = config w" for v
    using assms(1-5) that by (simp add: resolveAccessToken_def Let_def config_get_auth_def)
  note first = service_account_exchange[OF assms(6,7,8)]
  have "readFileSync p ?w' = Inr raw"
    using assms(5,6) by (simp add: readFileSync_def)
  moreover have "sign P ''RSA-SHA256'' (private_key key) (signing_input P key (Date_now ?w')) = Inr signature"
    using assms(8) by simp
  ultimately have second: "snd (getServiceAccountToken P p ?w') = ?w'\<lparr>posts := posts ?w' @ [?x]\<rparr>"
    using service_account_exchange[of p ?w' raw P key signature] assms(7) by simp
  have a: "snd (resolveAccessToken P flagValue w) = ?w'"
    using branch[of w] first by (simp split: sum.splits)
  have b: "\<forall>resp. network w ?x = Inr resp \<and> tok_ok resp
             \<longrightarrow> fst (resolveAccessToken P flagValue w) = Inr (Some (tok_access_token resp))"
    using branch[of w] first by simp
  have "snd (resolveAccessToken P flagValue ?w') = snd (getServiceAccountToken P p ?w')"
    using branch[of ?w'] by (simp split: prod.splits sum.splits)
  with second a
  have c: "posts (snd (resolveAccessToken P flagValue (snd (resolveAccessToken P flagValue w)))) =
           posts w @ [?x, ?x]"
    by simp
  from a b c show ?thesis by blast
qed

lemma key_file_parsed: "JSON_parse_key node key_file_text = Inr sample_key"
  by code_simp

lemma sample_signature:
  "sign node ''RSA-SHA256'' (private_key sample_key) (signing_input node sample_key 1700000000000) =
     Inr (b64url (''RSA-SHA256'' @ '':'' @ signing_input node sample_key 1700000000000))"
  by (simp add: node_def node_sign_def sample_key_def)

theorem resolve_service_account_witness:
  "fst (resolveAccessToken node None (world_of (Some both_record) granting)) = Inr (Some ''T'')
   \<and> posts (snd (resolveAccessToken node None (world_of (Some both_record) granting))) =
       [jwt_exchange node sample_key 1700000000000
          (b64url (''RSA-SHA256'' @ '':'' @ signing_input node sample_key 1700000000000))]
   \<and> config (snd (resolveAccessToken node None (world_of (Some both_record) granting))) =
       \<lparr>defaults = None, auth = Some both_record\<rparr>
   \<and> posts (snd (resolveAccessToken node None
               (snd (resolveAccessToken node None (world_of (Some both_record) granting))))) =
       [jwt_exchange node sample_key 1700000000000
          (b64url (''RSA-SHA256'' @ '':'' @ signing_input node sample_key 1700000000000)),
        jwt_exchange node sample_key 1700000000000
          (b64url (''RSA-SHA256'' @ '':'' @ signing_input node sample_key 1700000000000))]"
proof -
  let ?w = "world_of (Some both_record) granting"
  have h1: "\<not> truthy_str None" by simp
  have h2: "\<not> truthy_str (env_GTM_ACCESS_TOKEN ?w)" by (simp add: world_of_def)
  have h3: "config_get_auth ?w = Some both_record" by (simp add: world_of_def config_get_auth_def)
  have h4: "service_account_key_path both_record = Some ''/keys/sa.json''"
    by (simp add: both_record_def)
  have h5: "''/keys/sa.json'' \<noteq> []" by simp
  have h6: "readFileSync ''/keys/sa.json'' ?w = Inr key_file_text"
    by (simp add: readFileSync_def world_of_def)
  have h8: "sign node ''RSA-SHA256'' (private_key sample_key)
              (signing_input node sample_key (Date_now ?w)) =
            Inr (b64url (''RSA-SHA256'' @ '':'' @ signing_input node sample_key 1700000000000))"
    using sample_signature by (simp add: world_of_def)
  note T = resolve_service_account[OF h1 h2 h3 h4 h5 h6 key_file_parsed h8]
  have n: "network ?w (jwt_exchange node sample_key (Date_now ?w)
              (b64url (''RSA-SHA256'' @ '':'' @ signing_input node sample_key 1700000000000))) =
           Inr \<lparr>tok_ok = True, tok_text = [], tok_access_token = ''T'', tok_refresh_token = [],
                tok_expires_in = 3600\<rparr>"
    by (simp add: world_of_def granting_def)
  from T[THEN conjunct2, THEN conjunct1, rule_format, OF conjI, OF n]
  have a: "fst (resolveAccessToken node None ?w) = Inr (Some ''T'')" by simp
  from T[THEN conjunct1]
  have b: "posts (snd (resolveAccessToken node None ?w)) =
       [jwt_exchange node sample_key 1700000000000
          (b64url (''RSA-SHA256'' @ '':'' @ signing_input node sample_key 1700000000000))]"
    and c: "config (snd (resolveAccessToken node None ?w)) = \<lparr>defaults = None, auth = Some both_record\<rparr>"
    by (simp_all add: world_of_def)
  from T[THEN conjunct2, THEN conjunct2]
  have d: "posts (snd (resolveAccessToken node None (snd (resolveAccessToken node None ?w)))) =
       [jwt_exchange node sample_key 1700000000000
          (b64url (''RSA-SHA256'' @ '':'' @ signing_input node sample_key 1700000000000)),
        jwt_exchange node sample_key 1700000000000
          (b64url (''RSA-SHA256'' @ '':'' @ signing_input node sample_key 1700000000000))]"
    by (simp add: world_of_def)
  from a b c d show ?thesis by blast
qed

section \<open>Properties of setupServiceAccount\<close>

text \<open>
  C10: \<open>setupServiceAccount\<close> with a key file that is read and parsed and whose type is
  \<open>service_account\<close> returns normally and leaves a record that has the key path and none of
  the OAuth fields, whatever record was there before. So at most one shape is active, and
  \<open>resolveAccessToken\<close> in the resulting world returns the flag value, the token of the
  environment, or the result of the service-account exchange.
\<close>

theorem store_service_account:
  assumes "readFileSync keyFilePath w = Inr raw" and "JSON_parse_key P raw = Inr key"
    and "key_type key = ''service_account''"
  shows "fst (setupServiceAccount P keyFilePath w) = None
       \<and> config_get_auth (snd (setupServiceAccount P keyFilePath w)) =
           Some \<lparr>oauth_token = None, oauth_refresh_token = None, oauth_expires_at = None,
                 client_id = None, client_secret = None,
                 service_account_key_path = Some keyFilePath\<rparr>
       \<and> one_shape (config_get_auth (snd (setupServiceAccount P keyFilePath w)))
       \<and> (\<forall>flagValue.
            resolveAccessToken P flagValue (snd (setupServiceAccount P keyFilePath w)) =
              (if truthy_str flagValue then (Inr flagValue, snd (setupServiceAccount P keyFilePath w))
               else if truthy_str (env_GTM_ACCESS_TOKEN w)
               then (Inr (env_GTM_ACCESS_TOKEN w), snd (setupServiceAccount P keyFilePath w))
               else (case getServiceAccountToken P keyFilePath (snd (setupServiceAccount P keyFilePath w)) of
                       (Inl e, w1) \<Rightarrow> (Inl e, w1)
                     | (Inr token, w1) \<Rightarrow> (Inr (Some token), w1))))"
proof -
  from assms(1) have ne: "keyFilePath \<noteq> []"
    by (auto simp add: readFileSync_def split: if_splits)
  have run: "setupServiceAccount P keyFilePath w =
      (None, w\<lparr>config := (config w)\<lparr>auth := Some (empty_auth\<lparr>service_account_key_path := Some keyFilePath\<rparr>)\<rparr>\<rparr>)"
    using assms by (simp add: setupServiceAccount_def config_set_auth_def)
  have a: "fst (setupServiceAccount P keyFilePath w) = None"
    by (simp add: run)
  have b: "config_get_auth (snd (setupServiceAccount P keyFilePath w)) =
           Some \<lparr>oauth_token = None, oauth_refresh_token = None, oauth_expires_at = None,
                 client_id = None, client_secret = None,
                 service_account_key_path = Some keyFilePath\<rparr>"
    by (simp add: run config_get_auth_def empty_auth_def)
  have c: "one_shape (config_get_auth (snd (setupServiceAccount P keyFilePath w)))"
    by (simp add: b one_shape_def oauth_shape_def)
  have d: "\<forall>flagValue.
            resolveAccessToken P flagValue (snd (setupServiceAccount P keyFilePath w)) =
              (if truthy_str flagValue then (Inr flagValue, snd (setupServiceAccount P keyFilePath w))
               else if truthy_str (env_GTM_ACCESS_TOKEN w)
               then (Inr (env_GTM_ACCESS_TOKEN w), snd (setupServiceAccount P keyFilePath w))
               else (case getServiceAccountToken P keyFilePath (snd (setupServiceAccount P keyFilePath w)) of
                       (Inl e, w1) \<Rightarrow> (Inl e, w1)
                     | (Inr token, w1) \<Rightarrow> (Inr (Some token), w1)))"
    using ne by (simp add: run resolveAccessToken_def Let_def config_get_auth_def empty_auth_def)
  from a b c d show ?thesis by blast
qed

lemma sa_token_after_setup:
  "fst (getServiceAccountToken node ''/keys/sa.json''
          (snd (setupServiceAccount node ''/keys/sa.json''
                  (world_of (Some (oauth_record (Some 1600000000000) (Some ''r''))) granting)))) = Inr ''T''"
  by code_simp

theorem store_service_account_witness:
  "fst (setupServiceAccount node ''/keys/sa.json''
          (world_of (Some (oauth_record (Some 1600000000000) (Some ''r''))) granting)) = None
   \<and> config_get_auth (snd (setupServiceAccount node ''/keys/sa.json''
          (world_of (Some (oauth_record (Some 1600000000000) (Some ''r''))) granting))) =
       Some \<lparr>oauth_token = None, oauth_refresh_token = None, oauth_expires_at = None,
             client_id = None, client_secret = None,
             service_account_key_path = Some ''/keys/sa.json''\<rparr>
   \<and> one_shape (config_get_auth (snd (setupServiceAccount node ''/keys/sa.json''
          (world_of (Some (oauth_record (Some 1600000000000) (Some ''r''))) granting))))
   \<and> fst (resolveAccessToken node None (snd (setupServiceAccount node ''/keys/sa.json''
          (world_of (Some (oauth_record (Some 1600000000000) (Some ''r''))) granting)))) =
       Inr (Some ''T'')"
proof -
  let ?w = "world_of (Some (oauth_record (Some 1600000000000) (Some ''r''))) granting"
  have h1: "readFileSync ''/keys/sa.json'' ?w = Inr key_file_text"
    by (simp add: readFileSync_def world_of_def)
  have h3: "key_type sample_key = ''service_account''"
    by (simp add: sample_key_def)
  note T = store_service_account[OF h1 key_file_parsed h3]
  from T[THEN conjunct2, THEN conjunct2, THEN conjunct2, rule_format, of None]
  have "resolveAccessToken node None (snd (setupServiceAccount node ''/keys/sa.json'' ?w)) =
          (case getServiceAccountToken node ''/keys/sa.json''
                  (snd (setupServiceAccount node ''/keys/sa.json'' ?w)) of
             (Inl e, w1) \<Rightarrow> (Inl e, w1)
           | (Inr token, w1) \<Rightarrow> (Inr (Some token), w1))"
    by (simp add: world_of_def)
  with sa_token_after_setup
  have d: "fst (resolveAccessToken node None (snd (setupServiceAccount node ''/keys/sa.json'' ?w))) =
       Inr (Some ''T'')"
    by (cases "getServiceAccountToken node ''/keys/sa.json''
                  (snd (setupServiceAccount node ''/keys/sa.json'' ?w))") auto
  from T d show ?thesis by blast
qed

section \<open>Properties of the listener\<close>

lemma stray_callbacks:
  assumes "\<forall>ev\<in>set evs. \<exists>q. ev = Incoming (Some q) \<and> \<not> truthy_str (sp_error q)
              \<and> (sp_state q \<noteq> Some s \<or> \<not> truthy_str (sp_code q))"
    and "listening L" and "outcome L = Pending"
  shows "listening (foldl (\<lambda>L ev. on_event s ev L) L evs)
       \<and> outcome (foldl (\<lambda>L ev. on_event s ev L) L evs) = Pending"
  using assms
proof (induction evs arbitrary: L)
  case Nil
  then show ?case by simp
next
  case (Cons ev evs)
  from Cons.prems(1) obtain q where q: "ev = Incoming (Some q)" "\<not> truthy_str (sp_error q)"
      "sp_state q \<noteq> Some s \<or> \<not> truthy_str (sp_code q)"
    by auto
  with Cons.prems(2,3) have "listening (on_event s ev L)" "outcome (on_event s ev L) = Pending"
    by (auto simp add: on_request_def Let_def)
  with Cons.IH[of "on_event s ev L"] Cons.prems(1) show ?case by simp
qed

text \<open>
  C8, as the code has it: what a callback does to a listener that listens with its promise
  pending. With an \<open>error\<close> parameter (not empty) the server is closed and the promise
  rejected, whatever the state parameter is. Without one, a state that does not match is
  answered with status 400, and so is a matching state without a code: in both cases the
  server keeps listening and the promise stays pending. A matching state with a code closes
  the server and resolves the promise with the code. So after any number of callbacks of the
  two tolerated kinds, a correct callback still succeeds.
\<close>

theorem callback_handling:
  assumes "listening L" and "outcome L = Pending"
  shows "(\<forall>e. sp_error q = Some e \<and> e \<noteq> []
            \<longrightarrow> \<not> listening (on_request s (Some q) L)
              \<and> outcome (on_request s (Some q) L) =
                  Rejected (Threw (Error (''OAuth authorization failed: '' @ e))))
       \<and> (\<not> truthy_str (sp_error q) \<and> sp_state q \<noteq> Some s
            \<longrightarrow> listening (on_request s (Some q) L) \<and> outcome (on_request s (Some q) L) = Pending
              \<and> replies (on_request s (Some q) L) =
                  replies L @ [(400, ''<html><body><h1>Invalid state parameter</h1></body></html>'')])
       \<and> (\<not> truthy_str (sp_error q) \<and> sp_state q = Some s \<and> \<not> truthy_str (sp_code q)
            \<longrightarrow> listening (on_request s (Some q) L) \<and> outcome (on_request s (Some q) L) = Pending
              \<and> replies (on_request s (Some q) L) =
                  replies L @ [(400, ''<html><body><h1>Missing authorization code</h1></body></html>'')])
       \<and> (\<forall>c. \<not> truthy_str (sp_error q) \<and> sp_state q = Some s \<and> sp_code q = Some c \<and> c \<noteq> []
            \<longrightarrow> \<not> listening (on_request s (Some q) L)
              \<and> outcome (on_request s (Some q) L) = Resolved c)
       \<and> (\<forall>evs c. (\<forall>ev\<in>set evs. \<exists>q. ev = Incoming (Some q) \<and> \<not> truthy_str (sp_error q)
                                 \<and> (sp_state q \<noteq> Some s \<or> \<not> truthy_str (sp_code q)))
                   \<and> c \<noteq> []
            \<longrightarrow> outcome (waitForOAuthCallback s (evs @ [callback (Some c) (Some s) None])) = Resolved c)"
proof -
  have a: "\<forall>e. sp_error q = Some e \<and> e \<noteq> []
            \<longrightarrow> \<not> listening (on_request s (Some q) L)
              \<and> outcome (on_request s (Some q) L) =
                  Rejected (Threw (Error (''OAuth authorization failed: '' @ e)))"
    using assms by (simp add: on_request_def Let_def settle_def)
  have b: "\<not> truthy_str (sp_error q) \<and> sp_state q \<noteq> Some s
            \<longrightarrow> listening (on_request s (Some q) L) \<and> outcome (on_request s (Some q) L) = Pending
              \<and> replies (on_request s (Some q) L) =
                  replies L @ [(400, ''<html><body><h1>Invalid state parameter</h1></body></html>'')]"
    using assms by (simp add: on_request_def Let_def)
  have c: "\<not> truthy_str (sp_error q) \<and> sp_state q = Some s \<and> \<not> truthy_str (sp_code q)
            \<longrightarrow> listening (on_request s (Some q) L) \<and> outcome (on_request s (Some q) L) = Pending
              \<and> replies (on_request s (Some q) L) =
                  replies L @ [(400, ''<html><body><h1>Missing authorization code</h1></body></html>'')]"
    using assms by (simp add: on_request_def Let_def)
  have d: "\<forall>c. \<not> truthy_str (sp_error q) \<and> sp_state q = Some s \<and> sp_code q = Some c \<and> c \<noteq> []
            \<longrightarrow> \<not> listening (on_request s (Some q) L)
              \<and> outcome (on_request s (Some q) L) = Resolved c"
    using assms by (simp add: on_request_def Let_def settle_def)
  have e: "outcome (waitForOAuthCallback s (evs @ [callback (Some c) (Some s) None])) = Resolved c"
    if "\<forall>ev\<in>set evs. \<exists>q. ev = Incoming (Some q) \<and> \<not> truthy_str (sp_error q)
                                 \<and> (sp_state q \<noteq> Some s \<or> \<not> truthy_str (sp_code q))"
       "c \<noteq> []" for evs c
    using stray_callbacks[OF that(1), of "\<lparr>listening = True, outcome = Pending, replies = []\<rparr>"] that(2)
    by (simp add: waitForOAuthCallback_def callback_def on_request_def Let_def settle_def)
  from a b c d e show ?thesis by blast
qed

theorem callback_handling_witness:
  "\<not> listening (on_request ''s'' (Some \<lparr>sp_code = None, sp_state = Some ''x'', sp_error = Some ''access_denied''\<rparr>)
        \<lparr>listening = True, outcome = Pending, replies = []\<rparr>)
   \<and> outcome (on_request ''s'' (Some \<lparr>sp_code = None, sp_state = Some ''x'', sp_error = Some ''access_denied''\<rparr>)
        \<lparr>listening = True, outcome = Pending, replies = []\<rparr>) =
       Rejected (Threw (Error (''OAuth authorization failed: '' @ ''access_denied'')))
   \<and> listening (on_request ''s'' (Some \<lparr>sp_code = Some ''c'', sp_state = Some ''x'', sp_error = None\<rparr>)
        \<lparr>listening = True, outcome = Pending, replies = []\<rparr>)
   \<and> outcome (on_request ''s'' (Some \<lparr>sp_code = Some ''c'', sp_state = Some ''x'', sp_error = None\<rparr>)
        \<lparr>listening = True, outcome = Pending, replies = []\<rparr>) = Pending
   \<and> listening (on_request ''s'' (Some \<lparr>sp_code = None, sp_state = Some ''s'', sp_error = None\<rparr>)
        \<lparr>listening = True, outcome = Pending, replies = []\<rparr>)
   \<and> outcome (on_request ''s'' (Some \<lparr>sp_code = None, sp_state = Some ''s'', sp_error = None\<rparr>)
        \<lparr>listening = True, outcome = Pending, replies = []\<rparr>) = Pending
   \<and> \<not> listening (on_request ''s'' (Some \<lparr>sp_code = Some ''c'', sp_state = Some ''s'', sp_error = None\<rparr>)
        \<lparr>listening = True, outcome = Pending, replies = []\<rparr>)
   \<and> outcome (on_request ''s'' (Some \<lparr>sp_code = Some ''c'', sp_state = Some ''s'', sp_error = None\<rparr>)
        \<lparr>listening = True, outcome = Pending, replies = []\<rparr>) = Resolved ''c''
   \<and> outcome (waitForOAuthCallback ''s''
        ([callback (Some ''c'') (Some ''x'') None, callback None (Some ''s'') None]
         @ [callback (Some ''c'') (Some ''s'') None])) = Resolved ''c''"
proof -
  let ?L = "\<lparr>listening = True, outcome = Pending, replies = []\<rparr> :: Listener"
  have l: "listening ?L" and p: "outcome ?L = Pending" by simp_all
  note T = callback_handling[OF l p, where s = "''s''"]
  note a = T[where q = "\<lparr>sp_code = None, sp_state = Some ''x'', sp_error = Some ''access_denied''\<rparr>",
             THEN conjunct1, rule_format, where e = "''access_denied''"]
  note b = T[where q = "\<lparr>sp_code = Some ''c'', sp_state = Some ''x'', sp_error = None\<rparr>",
             THEN conjunct2, THEN conjunct1, rule_format]
  note c = T[where q = "\<lparr>sp_code = None, sp_state = Some ''s'', sp_error = None\<rparr>",
             THEN conjunct2, THEN conjunct2, THEN conjunct1, rule_format]
  note d = T[where q = "\<lparr>sp_code = Some ''c'', sp_state = Some ''s'', sp_error = None\<rparr>",
             THEN conjunct2, THEN conjunct2, THEN conjunct2, THEN conjunct1, rule_format,
             where c = "''c''"]
  note e = T[where q = "\<lparr>sp_code = None, sp_state = None, sp_error = None\<rparr>",
             THEN conjunct2, THEN conjunct2, THEN conjunct2, THEN conjunct2, rule_format,
             where evs = "[callback (Some ''c'') (Some ''x'') None, callback None (Some ''s'') None]"
               and c = "''c''"]
  have e': "outcome (waitForOAuthCallback ''s''
        ([callback (Some ''c'') (Some ''x'') None, callback None (Some ''s'') None]
         @ [callback (Some ''c'') (Some ''s'') None])) = Resolved ''c''"
    by (rule e) (simp add: callback_def)
  from a b c d e' show ?thesis by simp
qed

theorem callback_without_code_counterexample:
  "listening (waitForOAuthCallback ''s'' [callback None (Some ''s'') None])
   \<and> outcome (waitForOAuthCallback ''s'' [callback None (Some ''s'') None]) = Pending
   \<and> outcome (waitForOAuthCallback ''s'' [callback None (Some ''s'') None,
                                           callback (Some ''c'') (Some ''s'') None]) = Resolved ''c''"
  by (simp add: waitForOAuthCallback_def callback_def on_request_def Let_def settle_def)

end
